theory Spec2Isabelle
  imports Main "HOL-Library.Word"
begin

unbundle bit_operations_syntax

section \<open>Machine types of the target boards\<close>

text \<open>
  The sketches build for the Arduino Uno R4, the Raspberry Pi Pico and the XIAO RP2040,
  all 32-bit ARM boards: \<open>int\<close>, \<open>long\<close> and \<open>unsigned long\<close> are 32 bits wide,
  \<open>uint8_t\<close> is a byte.
\<close>

type_synonym u8 = "8 word"
type_synonym u16 = "16 word"
type_synonym u32 = "32 word"

definition INT_MIN :: int where
  "INT_MIN = - 2147483648"

definition INT_MAX :: int where
  "INT_MAX = 2147483647"

definition int_range :: "int \<Rightarrow> bool" where
  "int_range v = (INT_MIN \<le> v \<and> v \<le> INT_MAX)"

section \<open>The C library functions the command processor calls\<close>

text \<open>
  C strings are modelled as \<open>string\<close> (the bytes before the terminating NUL); a NULL
  pointer is \<open>None\<close> of \<open>string option\<close>.

  \<open>isspace\<close> and \<open>isdigit\<close> in the C locale.
\<close>

definition isspace :: "char \<Rightarrow> bool" where
  "isspace c = (c = CHR '' '' \<or> c = CHR 0x09 \<or> c = CHR 0x0A \<or> c = CHR 0x0B
                \<or> c = CHR 0x0C \<or> c = CHR 0x0D)"

definition isdigit :: "char \<Rightarrow> bool" where
  "isdigit c = (48 \<le> (of_char c :: nat) \<and> (of_char c :: nat) \<le> 57)"

definition digit_val :: "char \<Rightarrow> nat" where
  "digit_val c = of_char c - 48"

text \<open>The run of decimal digits at the head of a string, accumulated base 10.\<close>

fun scan_digits :: "string \<Rightarrow> nat \<Rightarrow> nat \<times> string" where
  "scan_digits [] acc = (acc, [])"
| "scan_digits (c # cs) acc =
     (if isdigit c then scan_digits cs (acc * 10 + digit_val c) else (acc, c # cs))"

text \<open>
  The integer conversion shared by \<open>atoi\<close>, \<open>atol\<close> and the \<open>%d\<close> directive of
  \<open>sscanf\<close>: leading white space is skipped, one optional sign is read, then at least
  one digit is needed. The result is the value and the unread rest, or \<open>None\<close> when no
  digit follows. The value is the mathematical one: C leaves the conversion undefined
  when it does not fit the result type, so statements about values rest on
  \<open>int_range\<close> where that matters.
\<close>

definition scan_signed :: "string \<Rightarrow> (int \<times> string) option" where
  "scan_signed s1 =
     (let neg = (case s1 of [] \<Rightarrow> False | c # _ \<Rightarrow> c = CHR ''-'');
          s2 = (case s1 of [] \<Rightarrow> []
                | c # r \<Rightarrow> if c = CHR ''-'' \<or> c = CHR ''+'' then r else s1)
      in case s2 of
           [] \<Rightarrow> None
         | d # _ \<Rightarrow>
             if isdigit d
             then (case scan_digits s2 0 of
                     (n, rest) \<Rightarrow> Some (if neg then - int n else int n, rest))
             else None)"

text \<open>\<open>scan_signed\<close> reads the sign and the digits; \<open>scan_int\<close> skips the white space first.\<close>

definition scan_int :: "string \<Rightarrow> (int \<times> string) option" where
  "scan_int s = scan_signed (dropWhile isspace s)"

text \<open>\<open>atoi\<close> and \<open>atol\<close> return 0 when no conversion can be performed.\<close>

definition atoi :: "string \<Rightarrow> int" where
  "atoi s = (case scan_int s of None \<Rightarrow> 0 | Some (v, _) \<Rightarrow> v)"

definition atol :: "string \<Rightarrow> int" where
  "atol s = (case scan_int s of None \<Rightarrow> 0 | Some (v, _) \<Rightarrow> v)"

text \<open>
  \<open>strchr s c\<close>: the suffix of \<open>s\<close> that starts at the first \<open>c\<close>, or \<open>None\<close> (NULL)
  when \<open>c\<close> does not occur.
\<close>

fun strchr :: "string \<Rightarrow> char \<Rightarrow> string option" where
  "strchr [] c = None"
| "strchr (x # xs) c = (if x = c then Some (x # xs) else strchr xs c)"

text \<open>\<open>strncmp(s, lit, n) == 0\<close> for a literal of exactly \<open>n\<close> characters.\<close>

definition strncmp_eq :: "string \<Rightarrow> string \<Rightarrow> nat \<Rightarrow> bool" where
  "strncmp_eq s lit n = (take n s = take n lit)"

text \<open>
  \<open>sscanf\<close> with a format made of literal characters and \<open>%d\<close> directives. The result
  is the list of converted values in order; its length is the count \<open>sscanf\<close> returns
  (an input failure before the first conversion, which C reports as \<open>EOF\<close>, is the
  empty list: the callers only compare the count with the number of directives).
\<close>

datatype directive = Lit char | PercentD

fun sscanf :: "string \<Rightarrow> directive list \<Rightarrow> int list" where
  "sscanf s [] = []"
| "sscanf s (Lit c # fs) =
     (case s of [] \<Rightarrow> [] | x # xs \<Rightarrow> if x = c then sscanf xs fs else [])"
| "sscanf s (PercentD # fs) =
     (case scan_int s of None \<Rightarrow> [] | Some (v, rest) \<Rightarrow> v # sscanf rest fs)"

definition lits :: "string \<Rightarrow> directive list" where
  "lits s = map Lit s"

text \<open>The \<open>%d\<close> and \<open>%ld\<close> output conversions: decimal, with a minus sign when negative.\<close>

definition digit_char :: "nat \<Rightarrow> char" where
  "digit_char d = char_of (48 + d)"

function dec_nat :: "nat \<Rightarrow> string" where
  "dec_nat n = (if n < 10 then [digit_char n] else dec_nat (n div 10) @ [digit_char (n mod 10)])"
  by pat_completeness auto
termination
  by (relation "measure (\<lambda>n. n)") auto

declare dec_nat.simps [simp del]

definition dec :: "int \<Rightarrow> string" where
  "dec i = (if i < 0 then CHR ''-'' # dec_nat (nat (- i)) else dec_nat (nat i))"

text \<open>
  \<open>snprintf\<close> into \<open>response[128]\<close>: at most 127 characters are stored.
  \<open>strcpy\<close> of a short literal stores it whole.
\<close>

definition snprintf128 :: "string \<Rightarrow> string" where
  "snprintf128 s = take 127 s"

section \<open>CommandProcessor.c\<close>

datatype CommandResult = COMMAND_ACCEPTED | COMMAND_REJECTED | COMMAND_UNKNOWN

record CommandResponse =
  result :: CommandResult
  response :: string

text \<open>\<open>p[0] == '-'\<close> on a C string: false at the terminating NUL.\<close>

definition first_is_minus :: "string \<Rightarrow> bool" where
  "first_is_minus p = (case p of [] \<Rightarrow> False | c # _ \<Rightarrow> c = CHR ''-'')"

text \<open>
  The parsers return \<open>false\<close> as \<open>None\<close> and \<open>true\<close> as \<open>Some\<close> of the values written
  through the output pointers.
\<close>

definition parseColorCommand :: "string option \<Rightarrow> (u8 \<times> u8 \<times> u8) option" where
  "parseColorCommand cmd =
     (case cmd of
        None \<Rightarrow> None
      | Some s \<Rightarrow>
          if \<not> strncmp_eq s ''COLOR,'' 6 then None
          else
            let params = drop 6 s in
            (case strchr params CHR '','' of
              None \<Rightarrow> None
            | Some comma1 \<Rightarrow>
                (case strchr (tl comma1) CHR '','' of
                   None \<Rightarrow> None
                 | Some comma2 \<Rightarrow>
                     if strchr (tl comma2) CHR '','' \<noteq> None then None
                     else
                       let r_val = atoi params;
                           g_val = atoi (tl comma1);
                           b_val = atoi (tl comma2)
                       in if r_val < 0 \<or> r_val > 255 \<or> g_val < 0 \<or> g_val > 255
                             \<or> b_val < 0 \<or> b_val > 255 then None
                          else if (r_val = 0 \<and> first_is_minus params)
                                  \<or> (g_val = 0 \<and> first_is_minus (tl comma1))
                                  \<or> (b_val = 0 \<and> first_is_minus (tl comma2)) then None
                          else Some (word_of_int r_val, word_of_int g_val, word_of_int b_val))))"

definition parseBlink1Command :: "string option \<Rightarrow> (u8 \<times> u8 \<times> u8 \<times> int) option" where
  "parseBlink1Command cmd =
     (case cmd of
        None \<Rightarrow> None
      | Some s \<Rightarrow>
          if \<not> strncmp_eq s ''BLINK1,'' 7 then None
          else
            let params = drop 7 s in
            (case strchr params CHR '','' of
              None \<Rightarrow> None
            | Some comma1 \<Rightarrow>
                (case strchr (tl comma1) CHR '','' of
                   None \<Rightarrow> None
                 | Some comma2 \<Rightarrow>
                     (case strchr (tl comma2) CHR '','' of
                        None \<Rightarrow> None
                      | Some comma3 \<Rightarrow>
                          if strchr (tl comma3) CHR '','' \<noteq> None then None
                          else
                            let r_val = atoi params;
                                g_val = atoi (tl comma1);
                                b_val = atoi (tl comma2);
                                interval_val = atol (tl comma3)
                            in if r_val < 0 \<or> r_val > 255 \<or> g_val < 0 \<or> g_val > 255
                                  \<or> b_val < 0 \<or> b_val > 255 \<or> interval_val \<le> 0 then None
                               else Some (word_of_int r_val, word_of_int g_val,
                                          word_of_int b_val, interval_val)))))"

definition byte_ok :: "int \<Rightarrow> bool" where
  "byte_ok v = (v \<ge> 0 \<and> v \<le> 255)"

definition parseBlink2Command ::
  "string option \<Rightarrow> (u8 \<times> u8 \<times> u8 \<times> u8 \<times> u8 \<times> u8 \<times> int) option" where
  "parseBlink2Command cmd =
     (case cmd of
        None \<Rightarrow> None
      | Some s \<Rightarrow>
          if \<not> strncmp_eq s ''BLINK2,'' 7 then None
          else
            (case sscanf s (lits ''BLINK2,'' @ [PercentD, Lit CHR '','', PercentD,
                     Lit CHR '','', PercentD, Lit CHR '','', PercentD, Lit CHR '','',
                     PercentD, Lit CHR '','', PercentD, Lit CHR '','', PercentD]) of
               [temp_r1, temp_g1, temp_b1, temp_r2, temp_g2, temp_b2, temp_interval] \<Rightarrow>
                 if temp_interval > 0 \<and> byte_ok temp_r1 \<and> byte_ok temp_g1 \<and> byte_ok temp_b1
                    \<and> byte_ok temp_r2 \<and> byte_ok temp_g2 \<and> byte_ok temp_b2
                 then Some (word_of_int temp_r1, word_of_int temp_g1, word_of_int temp_b1,
                            word_of_int temp_r2, word_of_int temp_g2, word_of_int temp_b2,
                            temp_interval)
                 else None
             | _ \<Rightarrow> None))"

definition parseRainbowCommand :: "string option \<Rightarrow> int option" where
  "parseRainbowCommand cmd =
     (case cmd of
        None \<Rightarrow> None
      | Some s \<Rightarrow>
          (case sscanf s (lits ''RAINBOW,'' @ [PercentD]) of
             [temp_interval] \<Rightarrow> if temp_interval > 0 then Some temp_interval else None
           | _ \<Rightarrow> None))"

text \<open>
  \<open>processCommand(cmd, response)\<close>: the second argument is the response structure the
  pointer refers to (\<open>None\<close> for a NULL pointer), the result is that structure after
  the call.
\<close>

definition unknown_empty :: CommandResponse where
  "unknown_empty = \<lparr>result = COMMAND_REJECTED, response = ''REJECT,,unknown command''\<rparr>"

definition processCommand ::
  "string option \<Rightarrow> CommandResponse option \<Rightarrow> CommandResponse option" where
  "processCommand cmd resp =
     (case resp of
        None \<Rightarrow> None
      | Some _ \<Rightarrow>
          (case cmd of
             None \<Rightarrow> Some unknown_empty
           | Some s \<Rightarrow>
               if length s = 0 then Some unknown_empty
               else if s = ''ON'' then
                 Some \<lparr>result = COMMAND_ACCEPTED, response = ''ACCEPTED,ON''\<rparr>
               else if s = ''OFF'' then
                 Some \<lparr>result = COMMAND_ACCEPTED, response = ''ACCEPTED,OFF''\<rparr>
               else if strncmp_eq s ''COLOR,'' 6 then
                 (case parseColorCommand cmd of
                    Some (r, g, b) \<Rightarrow>
                      Some \<lparr>result = COMMAND_ACCEPTED,
                            response = snprintf128 (''ACCEPTED,'' @ s)\<rparr>
                  | None \<Rightarrow>
                      Some \<lparr>result = COMMAND_REJECTED,
                            response = snprintf128 (''REJECT,'' @ s @ '',invalid format'')\<rparr>)
               else if strncmp_eq s ''BLINK1,'' 7 then
                 (case parseBlink1Command cmd of
                    Some (r, g, b, interval) \<Rightarrow>
                      Some \<lparr>result = COMMAND_ACCEPTED,
                            response = snprintf128 (''ACCEPTED,BLINK1,'' @ dec (uint r) @ '',''
                              @ dec (uint g) @ '','' @ dec (uint b)
                              @ '',interval='' @ dec interval)\<rparr>
                  | None \<Rightarrow>
                      Some \<lparr>result = COMMAND_REJECTED,
                            response = snprintf128 (''REJECT,'' @ s @ '',invalid parameters'')\<rparr>)
               else if strncmp_eq s ''BLINK2,'' 7 then
                 (case parseBlink2Command cmd of
                    Some (r1, g1, b1, r2, g2, b2, interval) \<Rightarrow>
                      Some \<lparr>result = COMMAND_ACCEPTED,
                            response = snprintf128 (''ACCEPTED,BLINK2,'' @ dec (uint r1) @ '',''
                              @ dec (uint g1) @ '','' @ dec (uint b1) @ '',''
                              @ dec (uint r2) @ '','' @ dec (uint g2) @ '',''
                              @ dec (uint b2) @ '',interval='' @ dec interval)\<rparr>
                  | None \<Rightarrow>
                      Some \<lparr>result = COMMAND_REJECTED,
                            response = snprintf128 (''REJECT,'' @ s @ '',invalid parameters'')\<rparr>)
               else if strncmp_eq s ''RAINBOW,'' 8 then
                 (case parseRainbowCommand cmd of
                    Some interval \<Rightarrow>
                      Some \<lparr>result = COMMAND_ACCEPTED,
                            response = snprintf128 (''ACCEPTED,RAINBOW,interval='' @ dec interval)\<rparr>
                  | None \<Rightarrow>
                      Some \<lparr>result = COMMAND_REJECTED,
                            response = snprintf128 (''REJECT,'' @ s @ '',invalid interval'')\<rparr>)
               else
                 Some \<lparr>result = COMMAND_REJECTED,
                       response = snprintf128 (''REJECT,'' @ s @ '',unknown command'')\<rparr>))"

section \<open>LEDController.h: the backend interface\<close>

text \<open>
  The calls a backend makes on the hardware (the Arduino core's pin functions and the
  Adafruit NeoPixel driver object \<open>pixels\<close>) are returned as a list of events, in call
  order, next to the new state of the controller object. \<open>millis()\<close> is an argument
  \<open>now\<close> of every operation that reads the clock.
\<close>

datatype hw_event =
    PinModeOutput int
  | DigitalWrite int int
  | PixelsSetBrightness int
  | PixelsBegin
  | PixelsClear
  | PixelsShow
  | SetPixelColor nat u32

definition LOW :: int where
  "LOW = 0"

definition HIGH :: int where
  "HIGH = 1"

text \<open>
  The protected timing members of the base class. \<open>currentInterval\<close> is a \<open>long\<close>;
  its only use is the comparison with an \<open>unsigned long\<close> difference, which converts
  it to \<open>unsigned long\<close>, so it is kept as its 32 bits and compared unsigned.
\<close>

record LEDController =
  previousUpdateMillis :: u32
  currentInterval :: u32
  animationEnabled :: bool

section \<open>DigitalLEDController.cpp\<close>

record DigitalLEDController = LEDController +
  pin :: int
  currentState :: int
  blinkEnabled :: bool
  blinkStateD :: bool

definition DigitalLEDController_new :: "int \<Rightarrow> DigitalLEDController" where
  "DigitalLEDController_new ledPin =
     \<lparr>previousUpdateMillis = 0, currentInterval = 500, animationEnabled = False,
      pin = ledPin, currentState = LOW, blinkEnabled = False, blinkStateD = False\<rparr>"

definition d_setLEDState :: "int \<Rightarrow> DigitalLEDController \<Rightarrow> DigitalLEDController \<times> hw_event list" where
  "d_setLEDState state s = (s\<lparr>currentState := state\<rparr>, [DigitalWrite (pin s) state])"

definition d_stopAnimation :: "DigitalLEDController \<Rightarrow> DigitalLEDController" where
  "d_stopAnimation s = s\<lparr>animationEnabled := False\<rparr>"

definition d_initialize :: "DigitalLEDController \<Rightarrow> DigitalLEDController \<times> hw_event list" where
  "d_initialize s =
     (s\<lparr>animationEnabled := False\<rparr>, [PinModeOutput (pin s), DigitalWrite (pin s) LOW])"

definition d_update :: "u32 \<Rightarrow> DigitalLEDController \<Rightarrow> DigitalLEDController \<times> hw_event list" where
  "d_update now s =
     (if \<not> animationEnabled s then (s, [])
      else if now - previousUpdateMillis s \<ge> currentInterval s then
        (let s1 = s\<lparr>previousUpdateMillis := now\<rparr>;
             s2 = s1\<lparr>blinkStateD := \<not> blinkStateD s1\<rparr>
         in d_setLEDState (if blinkStateD s2 then HIGH else LOW) s2)
      else (s, []))"

definition d_turnOn :: "DigitalLEDController \<Rightarrow> DigitalLEDController \<times> hw_event list" where
  "d_turnOn s = d_setLEDState HIGH (d_stopAnimation s)"

definition d_turnOff :: "DigitalLEDController \<Rightarrow> DigitalLEDController \<times> hw_event list" where
  "d_turnOff s = d_setLEDState LOW (d_stopAnimation s)"

definition d_setColor ::
  "u8 \<Rightarrow> u8 \<Rightarrow> u8 \<Rightarrow> DigitalLEDController \<Rightarrow> DigitalLEDController \<times> hw_event list" where
  "d_setColor r g b s = d_setLEDState HIGH (d_stopAnimation s)"

definition d_startBlink ::
  "u8 \<Rightarrow> u8 \<Rightarrow> u8 \<Rightarrow> u32 \<Rightarrow> u32 \<Rightarrow> DigitalLEDController
     \<Rightarrow> DigitalLEDController \<times> hw_event list" where
  "d_startBlink r g b interval now s =
     d_setLEDState LOW
       (s\<lparr>currentInterval := interval, animationEnabled := True, blinkStateD := False,
          previousUpdateMillis := now\<rparr>)"

definition d_startBlink2 ::
  "u8 \<Rightarrow> u8 \<Rightarrow> u8 \<Rightarrow> u8 \<Rightarrow> u8 \<Rightarrow> u8 \<Rightarrow> u32 \<Rightarrow> u32 \<Rightarrow> DigitalLEDController
     \<Rightarrow> DigitalLEDController \<times> hw_event list" where
  "d_startBlink2 r1 g1 b1 r2 g2 b2 interval now s = d_startBlink r1 g1 b1 interval now s"

definition d_startRainbow ::
  "u32 \<Rightarrow> DigitalLEDController \<Rightarrow> DigitalLEDController \<times> hw_event list" where
  "d_startRainbow interval s = d_turnOn s"

section \<open>NeoPixelLEDController.cpp\<close>

text \<open>
  The functions of the Adafruit NeoPixel driver that compute colours are not part of the
  repository; the controller is modelled over any such functions.
\<close>

record pixel_driver =
  Color :: "u8 \<Rightarrow> u8 \<Rightarrow> u8 \<Rightarrow> u32"
  ColorHSV :: "u16 \<Rightarrow> u32"
  gamma32 :: "u32 \<Rightarrow> u32"

datatype AnimationMode = NONE | BLINK1 | BLINK2 | RAINBOW

text \<open>
  \<open>rainbowHue\<close> is an \<open>int\<close>; it is modelled as an integer without wrap-around, and
  lemma \<open>np_run_invariant\<close> shows that it stays within 0 and 65535 in every state the
  operations reach, far from the limits of a 32-bit \<open>int\<close>.
\<close>

record NeoPixelLEDController = LEDController +
  powerPin :: int
  animationMode :: AnimationMode
  color1 :: u32
  color2 :: u32
  blinkState :: bool
  rainbowHue :: int

text \<open>The constructor leaves \<open>color1\<close> and \<open>color2\<close> uninitialised: they are arguments here.\<close>

definition NeoPixelLEDController_new ::
  "int \<Rightarrow> int \<Rightarrow> u32 \<Rightarrow> u32 \<Rightarrow> NeoPixelLEDController \<times> hw_event list" where
  "NeoPixelLEDController_new pPin brightness c1 c2 =
     (\<lparr>previousUpdateMillis = 0, currentInterval = 500, animationEnabled = False,
       powerPin = pPin, animationMode = NONE, color1 = c1, color2 = c2,
       blinkState = False, rainbowHue = 0\<rparr>,
      [PixelsSetBrightness brightness])"

definition createColor :: "pixel_driver \<Rightarrow> u8 \<Rightarrow> u8 \<Rightarrow> u8 \<Rightarrow> u32" where
  "createColor L r g b = Color L r g b"

definition np_stopAnimation :: "NeoPixelLEDController \<Rightarrow> NeoPixelLEDController" where
  "np_stopAnimation s = s\<lparr>animationEnabled := False, animationMode := NONE\<rparr>"

definition np_initialize ::
  "NeoPixelLEDController \<Rightarrow> NeoPixelLEDController \<times> hw_event list" where
  "np_initialize s =
     (s\<lparr>animationEnabled := False, animationMode := NONE\<rparr>,
      (if powerPin s \<ge> 0 then [PinModeOutput (powerPin s), DigitalWrite (powerPin s) HIGH]
       else [])
      @ [PixelsBegin, PixelsClear, PixelsShow])"

definition np_update ::
  "pixel_driver \<Rightarrow> u32 \<Rightarrow> NeoPixelLEDController \<Rightarrow> NeoPixelLEDController \<times> hw_event list" where
  "np_update L now s =
     (if \<not> animationEnabled s then (s, [])
      else if now - previousUpdateMillis s < currentInterval s then (s, [])
      else
        let s1 = s\<lparr>previousUpdateMillis := now\<rparr> in
        (case animationMode s1 of
           BLINK1 \<Rightarrow>
             (let s2 = s1\<lparr>blinkState := \<not> blinkState s1\<rparr>
              in (s2, [SetPixelColor 0 (if blinkState s2 then color1 s2 else 0), PixelsShow]))
         | BLINK2 \<Rightarrow>
             (let s2 = s1\<lparr>blinkState := \<not> blinkState s1\<rparr>
              in (s2, [SetPixelColor 0 (if blinkState s2 then color1 s2 else color2 s2),
                       PixelsShow]))
         | RAINBOW \<Rightarrow>
             (let ev = [SetPixelColor 0 (gamma32 L (ColorHSV L (word_of_int (rainbowHue s1)))),
                        PixelsShow];
                  s2 = s1\<lparr>rainbowHue := rainbowHue s1 + 256\<rparr>
              in (if rainbowHue s2 > 65535 then s2\<lparr>rainbowHue := 0\<rparr> else s2, ev))
         | NONE \<Rightarrow> (s1, [])))"

definition np_setColor ::
  "pixel_driver \<Rightarrow> u8 \<Rightarrow> u8 \<Rightarrow> u8 \<Rightarrow> NeoPixelLEDController
     \<Rightarrow> NeoPixelLEDController \<times> hw_event list" where
  "np_setColor L r g b s =
     (np_stopAnimation s, [SetPixelColor 0 (createColor L r g b), PixelsShow])"

definition np_turnOn ::
  "pixel_driver \<Rightarrow> NeoPixelLEDController \<Rightarrow> NeoPixelLEDController \<times> hw_event list" where
  "np_turnOn L s = np_setColor L 255 255 255 (np_stopAnimation s)"

definition np_turnOff ::
  "NeoPixelLEDController \<Rightarrow> NeoPixelLEDController \<times> hw_event list" where
  "np_turnOff s = (np_stopAnimation s, [PixelsClear, PixelsShow])"

definition np_startBlink ::
  "pixel_driver \<Rightarrow> u8 \<Rightarrow> u8 \<Rightarrow> u8 \<Rightarrow> u32 \<Rightarrow> u32 \<Rightarrow> NeoPixelLEDController
     \<Rightarrow> NeoPixelLEDController \<times> hw_event list" where
  "np_startBlink L r g b interval now s =
     (s\<lparr>currentInterval := interval, color1 := createColor L r g b, animationMode := BLINK1,
        animationEnabled := True, blinkState := False, previousUpdateMillis := now\<rparr>,
      [SetPixelColor 0 0, PixelsShow])"

definition np_startBlink2 ::
  "pixel_driver \<Rightarrow> u8 \<Rightarrow> u8 \<Rightarrow> u8 \<Rightarrow> u8 \<Rightarrow> u8 \<Rightarrow> u8 \<Rightarrow> u32 \<Rightarrow> u32 \<Rightarrow> NeoPixelLEDController
     \<Rightarrow> NeoPixelLEDController \<times> hw_event list" where
  "np_startBlink2 L r1 g1 b1 r2 g2 b2 interval now s =
     (let s' = s\<lparr>currentInterval := interval, color1 := createColor L r1 g1 b1,
                 color2 := createColor L r2 g2 b2, animationMode := BLINK2,
                 animationEnabled := True, blinkState := False, previousUpdateMillis := now\<rparr>
      in (s', [SetPixelColor 0 (color1 s'), PixelsShow]))"

definition np_startRainbow ::
  "u32 \<Rightarrow> u32 \<Rightarrow> NeoPixelLEDController \<Rightarrow> NeoPixelLEDController \<times> hw_event list" where
  "np_startRainbow interval now s =
     (s\<lparr>currentInterval := interval, animationMode := RAINBOW, animationEnabled := True,
        rainbowHue := 0, previousUpdateMillis := now\<rparr>, [])"

section \<open>Virtual dispatch over the two backends\<close>

datatype led = Digital DigitalLEDController | NeoPixel NeoPixelLEDController

fun lift_d :: "DigitalLEDController \<times> hw_event list \<Rightarrow> led \<times> hw_event list" where
  "lift_d (s, ev) = (Digital s, ev)"

fun lift_np :: "NeoPixelLEDController \<times> hw_event list \<Rightarrow> led \<times> hw_event list" where
  "lift_np (s, ev) = (NeoPixel s, ev)"

fun led_update :: "pixel_driver \<Rightarrow> u32 \<Rightarrow> led \<Rightarrow> led \<times> hw_event list" where
  "led_update L now (Digital s) = lift_d (d_update now s)"
| "led_update L now (NeoPixel s) = lift_np (np_update L now s)"

fun led_turnOn :: "pixel_driver \<Rightarrow> led \<Rightarrow> led \<times> hw_event list" where
  "led_turnOn L (Digital s) = lift_d (d_turnOn s)"
| "led_turnOn L (NeoPixel s) = lift_np (np_turnOn L s)"

fun led_turnOff :: "led \<Rightarrow> led \<times> hw_event list" where
  "led_turnOff (Digital s) = lift_d (d_turnOff s)"
| "led_turnOff (NeoPixel s) = lift_np (np_turnOff s)"

fun led_setColor :: "pixel_driver \<Rightarrow> u8 \<Rightarrow> u8 \<Rightarrow> u8 \<Rightarrow> led \<Rightarrow> led \<times> hw_event list" where
  "led_setColor L r g b (Digital s) = lift_d (d_setColor r g b s)"
| "led_setColor L r g b (NeoPixel s) = lift_np (np_setColor L r g b s)"

fun led_startBlink ::
  "pixel_driver \<Rightarrow> u8 \<Rightarrow> u8 \<Rightarrow> u8 \<Rightarrow> u32 \<Rightarrow> u32 \<Rightarrow> led \<Rightarrow> led \<times> hw_event list" where
  "led_startBlink L r g b interval now (Digital s) = lift_d (d_startBlink r g b interval now s)"
| "led_startBlink L r g b interval now (NeoPixel s) =
     lift_np (np_startBlink L r g b interval now s)"

fun led_startBlink2 ::
  "pixel_driver \<Rightarrow> u8 \<Rightarrow> u8 \<Rightarrow> u8 \<Rightarrow> u8 \<Rightarrow> u8 \<Rightarrow> u8 \<Rightarrow> u32 \<Rightarrow> u32 \<Rightarrow> led
     \<Rightarrow> led \<times> hw_event list" where
  "led_startBlink2 L r1 g1 b1 r2 g2 b2 interval now (Digital s) =
     lift_d (d_startBlink2 r1 g1 b1 r2 g2 b2 interval now s)"
| "led_startBlink2 L r1 g1 b1 r2 g2 b2 interval now (NeoPixel s) =
     lift_np (np_startBlink2 L r1 g1 b1 r2 g2 b2 interval now s)"

fun led_startRainbow :: "u32 \<Rightarrow> u32 \<Rightarrow> led \<Rightarrow> led \<times> hw_event list" where
  "led_startRainbow interval now (Digital s) = lift_d (d_startRainbow interval s)"
| "led_startRainbow interval now (NeoPixel s) = lift_np (np_startRainbow interval now s)"

section \<open>SerialCommandHandler.cpp\<close>

text \<open>
  The Arduino \<open>String\<close> members used: \<open>trim\<close> removes leading and trailing
  \<open>isspace\<close> characters, \<open>startsWith\<close> compares a prefix, \<open>+=\<close> appends a character.
  Bytes read from the port are taken to be non-NUL.
\<close>

definition trim :: "string \<Rightarrow> string" where
  "trim s = rev (dropWhile isspace (rev (dropWhile isspace s)))"

definition startsWith :: "string \<Rightarrow> string \<Rightarrow> bool" where
  "startsWith s p = (take (length p) s = p)"

record SerialCommandHandler =
  serialBuffer :: string
  commandReady :: bool

definition SerialCommandHandler_new :: SerialCommandHandler where
  "SerialCommandHandler_new = \<lparr>serialBuffer = [], commandReady = False\<rparr>"

text \<open>
  \<open>sendResponse\<close> prints one line on the serial port; the port's output is modelled
  as the list of lines printed.
\<close>

definition sendResponse :: "string \<Rightarrow> string \<Rightarrow> string \<Rightarrow> string" where
  "sendResponse status command additional =
     status @ '','' @ command @ (if length additional > 0 then '','' @ additional else [])"

definition sendRejected :: "string \<Rightarrow> string \<Rightarrow> string" where
  "sendRejected command reason = sendResponse ''REJECT'' command reason"

definition sendAccepted :: "string \<Rightarrow> string \<Rightarrow> string" where
  "sendAccepted command additional = sendResponse ''ACCEPTED'' command additional"

text \<open>
  \<open>handleSerial\<close> (the same text in \<open>sketches/common\<close> and in \<open>boards/common\<close>). The
  first argument is the sequence of bytes \<open>Serial.read()\<close> delivers while
  \<open>Serial.available() > 0\<close>; the result is the unread rest, the handler and the lines
  printed so far.
\<close>

fun handleSerial ::
  "string \<Rightarrow> SerialCommandHandler \<Rightarrow> string list
     \<Rightarrow> string \<times> SerialCommandHandler \<times> string list" where
  "handleSerial [] h out = ([], h, out)"
| "handleSerial (c # cs) h out =
     (if c = CHR 0x0A then
        (if length (serialBuffer h) > 0
         then (cs, h\<lparr>serialBuffer := trim (serialBuffer h), commandReady := True\<rparr>, out)
         else handleSerial cs h out)
      else
        (let h1 = h\<lparr>serialBuffer := serialBuffer h @ [c]\<rparr>
         in if length (serialBuffer h1) > 60
            then handleSerial cs (h1\<lparr>serialBuffer := []\<rparr>)
                   (out @ [sendRejected ''BUFFER_OVERFLOW'' ''command too long''])
            else handleSerial cs h1 out))"

text \<open>
  \<open>SerialCommandHandler::processCommand\<close> of \<open>sketches/common\<close>. The local
  \<open>CommandResponse\<close> is uninitialised when it is passed to the C function, which
  overwrites both fields on every path (lemma \<open>processCommand_overwrites\<close>).
  The result is the backend, the hardware events and the line printed.
\<close>

definition response_local :: CommandResponse where
  "response_local = \<lparr>result = COMMAND_UNKNOWN, response = []\<rparr>"

definition SerialCommandHandler_processCommand ::
  "pixel_driver \<Rightarrow> u32 \<Rightarrow> string \<Rightarrow> led \<Rightarrow> led \<times> hw_event list \<times> string list" where
  "SerialCommandHandler_processCommand L now cmd l =
     (case processCommand (Some cmd) (Some response_local) of
        None \<Rightarrow> (l, [], [])
      | Some resp \<Rightarrow>
          (let (l', ev) =
                 (if result resp = COMMAND_ACCEPTED then
                    (if cmd = ''ON'' then led_turnOn L l
                     else if cmd = ''OFF'' then led_turnOff l
                     else if startsWith cmd ''COLOR,'' then
                       (case parseColorCommand (Some cmd) of
                          Some (r, g, b) \<Rightarrow> led_setColor L r g b l
                        | None \<Rightarrow> (l, []))
                     else if startsWith cmd ''BLINK1,'' then
                       (case parseBlink1Command (Some cmd) of
                          Some (r, g, b, interval) \<Rightarrow>
                            led_startBlink L r g b (word_of_int interval) now l
                        | None \<Rightarrow> (l, []))
                     else if startsWith cmd ''BLINK2,'' then
                       (case parseBlink2Command (Some cmd) of
                          Some (r1, g1, b1, r2, g2, b2, interval) \<Rightarrow>
                            led_startBlink2 L r1 g1 b1 r2 g2 b2 (word_of_int interval) now l
                        | None \<Rightarrow> (l, []))
                     else if startsWith cmd ''RAINBOW,'' then
                       (case parseRainbowCommand (Some cmd) of
                          Some interval \<Rightarrow> led_startRainbow (word_of_int interval) now l
                        | None \<Rightarrow> (l, []))
                     else (l, []))
                  else (l, []))
           in (l', ev, [response resp])))"

definition processCommands ::
  "pixel_driver \<Rightarrow> u32 \<Rightarrow> SerialCommandHandler \<Rightarrow> led
     \<Rightarrow> SerialCommandHandler \<times> led \<times> hw_event list \<times> string list" where
  "processCommands L now h l =
     (if commandReady h then
        (case SerialCommandHandler_processCommand L now (serialBuffer h) l of
           (l', ev, lines) \<Rightarrow> (h\<lparr>serialBuffer := [], commandReady := False\<rparr>, l', ev, lines))
      else (h, l, [], []))"

section \<open>UniversalMain.cpp\<close>

text \<open>
  The board: the two global instances, the bytes waiting on the serial port, the lines
  printed and the hardware calls made so far.
\<close>

record board =
  ledController :: led
  commandHandler :: SerialCommandHandler
  serial_in :: string
  serial_out :: "string list"
  hardware :: "hw_event list"

text \<open>
  One iteration of \<open>universalLoop\<close>. \<open>t_update\<close> is the clock value \<open>update()\<close> reads,
  \<open>t_command\<close> the one a dispatched \<open>start...\<close> operation reads.
\<close>

definition universalLoop :: "pixel_driver \<Rightarrow> u32 \<Rightarrow> u32 \<Rightarrow> board \<Rightarrow> board" where
  "universalLoop L t_update t_command w =
     (case handleSerial (serial_in w) (commandHandler w) (serial_out w) of
        (inp, h1, out1) \<Rightarrow>
          (case led_update L t_update (ledController w) of
             (l1, ev1) \<Rightarrow>
               (case processCommands L t_command h1 l1 of
                  (h2, l2, ev2, lines) \<Rightarrow>
                    \<lparr>ledController = l2, commandHandler = h2, serial_in = inp,
                     serial_out = out1 @ lines, hardware = hardware w @ ev1 @ ev2\<rparr>)))"

text \<open>
  The order of an iteration as the specification words it: drain the input, parse and
  dispatch a ready command, then call \<open>update()\<close>.
\<close>

definition spec_loop_dispatch_first :: "pixel_driver \<Rightarrow> u32 \<Rightarrow> u32 \<Rightarrow> board \<Rightarrow> board" where
  "spec_loop_dispatch_first L t_update t_command w =
     (case handleSerial (serial_in w) (commandHandler w) (serial_out w) of
        (inp, h1, out1) \<Rightarrow>
          (case processCommands L t_command h1 (ledController w) of
             (h2, l1, ev1, lines) \<Rightarrow>
               (case led_update L t_update l1 of
                  (l2, ev2) \<Rightarrow>
                    \<lparr>ledController = l2, commandHandler = h2, serial_in = inp,
                     serial_out = out1 @ lines, hardware = hardware w @ ev1 @ ev2\<rparr>)))"

section \<open>Notions used to state the properties\<close>

text \<open>
  A phase advance of an animation rewrites the LED: on the NeoPixel backend it ends in
  one \<open>pixels.show()\<close>, on the Digital backend in one \<open>digitalWrite\<close>. The number of
  phase advances in a list of hardware calls is the number of these.
\<close>

fun is_output_write :: "hw_event \<Rightarrow> bool" where
  "is_output_write PixelsShow = True"
| "is_output_write (DigitalWrite p v) = True"
| "is_output_write e = False"

definition phase_advances :: "hw_event list \<Rightarrow> nat" where
  "phase_advances evs = length (filter is_output_write evs)"

text \<open>The public operations of the NeoPixel controller, as calls, and runs of calls.\<close>

datatype np_call =
    Initialize
  | Update u32
  | TurnOn
  | TurnOff
  | SetColor u8 u8 u8
  | StartBlink u8 u8 u8 u32 u32
  | StartBlink2 u8 u8 u8 u8 u8 u8 u32 u32
  | StartRainbow u32 u32
  | StopAnimation

fun np_exec ::
  "pixel_driver \<Rightarrow> np_call \<Rightarrow> NeoPixelLEDController \<Rightarrow> NeoPixelLEDController \<times> hw_event list" where
  "np_exec L Initialize s = np_initialize s"
| "np_exec L (Update now) s = np_update L now s"
| "np_exec L TurnOn s = np_turnOn L s"
| "np_exec L TurnOff s = np_turnOff s"
| "np_exec L (SetColor r g b) s = np_setColor L r g b s"
| "np_exec L (StartBlink r g b interval now) s = np_startBlink L r g b interval now s"
| "np_exec L (StartBlink2 r1 g1 b1 r2 g2 b2 interval now) s =
     np_startBlink2 L r1 g1 b1 r2 g2 b2 interval now s"
| "np_exec L (StartRainbow interval now) s = np_startRainbow interval now s"
| "np_exec L StopAnimation s = (np_stopAnimation s, [])"

fun np_run :: "pixel_driver \<Rightarrow> np_call list \<Rightarrow> NeoPixelLEDController \<Rightarrow> NeoPixelLEDController" where
  "np_run L [] s = s"
| "np_run L (c # cs) s = np_run L cs (fst (np_exec L c s))"

definition np_inv :: "NeoPixelLEDController \<Rightarrow> bool" where
  "np_inv s = (0 \<le> rainbowHue s \<and> rainbowHue s \<le> 65535 \<and> rainbowHue s mod 256 = 0
               \<and> animationEnabled s = (animationMode s \<noteq> NONE))"

text \<open>The hardware calls of successive \<open>update()\<close> calls at the given clock values.\<close>

fun np_ticks :: "pixel_driver \<Rightarrow> u32 list \<Rightarrow> NeoPixelLEDController \<Rightarrow> hw_event list" where
  "np_ticks L [] s = []"
| "np_ticks L (t # ts) s = (case np_update L t s of (s', ev) \<Rightarrow> ev @ np_ticks L ts s')"

section \<open>Concrete values used in the examples\<close>

text \<open>
  An instance of the driver's colour functions for evaluating the controller on concrete
  inputs: \<open>Color\<close> packs the three channels into \<open>0x00RRGGBB\<close>; \<open>ColorHSV\<close> and
  \<open>gamma32\<close> are simple stand-ins that keep their argument visible in the result.
\<close>

definition rgb_driver :: pixel_driver where
  "rgb_driver =
     \<lparr>Color = (\<lambda>r g b. push_bit 16 (ucast r) OR push_bit 8 (ucast g) OR ucast b),
      ColorHSV = (\<lambda>h. ucast h),
      gamma32 = (\<lambda>c. c + 1)\<rparr>"

definition np0 :: NeoPixelLEDController where
  "np0 = fst (NeoPixelLEDController_new 11 128 0 0)"

definition d0 :: DigitalLEDController where
  "d0 = DigitalLEDController_new 13"

text \<open>
  A board with a Digital LED on pin 13 that started blinking every 500 ms at clock 0,
  with the line \<open>OFF\<close> waiting on the serial port.
\<close>

definition blink_board :: board where
  "blink_board =
     \<lparr>ledController = Digital (fst (d_startBlink 0 0 0 500 0 d0)),
      commandHandler = SerialCommandHandler_new,
      serial_in = ''OFF'' @ [CHR 0x0A],
      serial_out = [],
      hardware = []\<rparr>"

text \<open>
  Two controller states agree on the running animation when they agree on the enabled
  flag and, if enabled, on the mode, the interval, the timestamp and the fields the
  \<open>update()\<close> case of that mode reads.
\<close>

definition same_animation :: "NeoPixelLEDController \<Rightarrow> NeoPixelLEDController \<Rightarrow> bool" where
  "same_animation s s' =
     (animationEnabled s = animationEnabled s'
      \<and> (animationEnabled s \<longrightarrow>
           animationMode s = animationMode s'
           \<and> currentInterval s = currentInterval s'
           \<and> previousUpdateMillis s = previousUpdateMillis s'
           \<and> (animationMode s = BLINK1 \<longrightarrow>
                 color1 s = color1 s' \<and> blinkState s = blinkState s')
           \<and> (animationMode s = BLINK2 \<longrightarrow>
                 color1 s = color1 s' \<and> color2 s = color2 s' \<and> blinkState s = blinkState s')
           \<and> (animationMode s = RAINBOW \<longrightarrow> rainbowHue s = rainbowHue s')))"

text \<open>NeoPixel states left by earlier effects.\<close>

definition after_blink2 :: NeoPixelLEDController where
  "after_blink2 = fst (np_startBlink2 rgb_driver 255 0 0 0 0 255 300 1000 np0)"

definition after_blink1_tick :: NeoPixelLEDController where
  "after_blink1_tick =
     fst (np_update rgb_driver 1600 (fst (np_startBlink rgb_driver 0 255 0 500 1000 np0)))"

text \<open>
  A text at which the scan of a decimal number stops: empty, or starting with a
  character that is no digit. A text is non-numeric when no integer can be read at its
  head: after optional white space and one optional sign there is no digit.
\<close>

definition stops :: "string \<Rightarrow> bool" where
  "stops rest = (case rest of [] \<Rightarrow> True | c # _ \<Rightarrow> \<not> isdigit c)"

definition non_numeric :: "string \<Rightarrow> bool" where
  "non_numeric t = (scan_int t = None)"


section \<open>Properties of the C library model\<close>

lemma isdigit_digit_char: "d < 10 \<Longrightarrow> isdigit (digit_char d)"
  by (simp add: isdigit_def digit_char_def)

lemma digit_val_digit_char: "d < 10 \<Longrightarrow> digit_val (digit_char d) = d"
  by (simp add: digit_val_def digit_char_def)

lemma dec_nat_digits: "\<forall>c\<in>set (dec_nat n). isdigit c"
proof (induction n rule: dec_nat.induct)
  case (1 n)
  show ?case
  proof (cases "n < 10")
    case True
    then show ?thesis
      by (subst dec_nat.simps) (simp add: isdigit_digit_char)
  next
    case False
    with 1 show ?thesis
      by (subst dec_nat.simps) (simp add: isdigit_digit_char)
  qed
qed

lemma dec_nat_not_Nil: "dec_nat n \<noteq> []"
  by (subst dec_nat.simps) simp

lemma scan_digits_all:
  "\<forall>c\<in>set ds. isdigit c \<Longrightarrow>
     scan_digits (ds @ rest) acc
       = scan_digits rest (foldl (\<lambda>a c. a * 10 + digit_val c) acc ds)"
  by (induction ds arbitrary: acc) simp_all

lemma foldl_dec_nat: "foldl (\<lambda>a c. a * 10 + digit_val c) 0 (dec_nat n) = n"
proof (induction n rule: dec_nat.induct)
  case (1 n)
  show ?case
  proof (cases "n < 10")
    case True
    then show ?thesis
      by (subst dec_nat.simps) (simp add: digit_val_digit_char)
  next
    case False
    with 1 show ?thesis
      by (subst dec_nat.simps) (simp add: digit_val_digit_char)
  qed
qed


lemma scan_digits_stops: "stops rest \<Longrightarrow> scan_digits rest acc = (acc, rest)"
  by (cases rest) (simp_all add: stops_def)

lemma scan_digits_dec_nat:
  "stops rest \<Longrightarrow> scan_digits (dec_nat n @ rest) 0 = (n, rest)"
  by (simp add: scan_digits_all dec_nat_digits foldl_dec_nat scan_digits_stops)

lemma isdigit_not_space: "isdigit c \<Longrightarrow> \<not> isspace c"
  by (auto simp: isdigit_def isspace_def)

lemma isdigit_not_sign: "isdigit c \<Longrightarrow> c \<noteq> CHR ''-'' \<and> c \<noteq> CHR ''+'' \<and> c \<noteq> CHR '',''"
  by (auto simp: isdigit_def)

lemma scan_int_dec_nat:
  assumes "stops rest"
  shows "scan_int (dec_nat n @ rest) = Some (int n, rest)"
proof -
  obtain d ds where d: "dec_nat n = d # ds"
    using dec_nat_not_Nil [of n] by (cases "dec_nat n") auto
  then have dig: "isdigit d"
    using dec_nat_digits [of n] by simp
  have "scan_digits (d # ds @ rest) 0 = (n, rest)"
    using scan_digits_dec_nat [OF assms, of n] d by simp
  then show ?thesis
    using dig isdigit_not_space [OF dig] isdigit_not_sign [OF dig]
    by (simp add: scan_int_def scan_signed_def d del: scan_digits.simps)
qed


lemma scan_int_dec:
  assumes "stops rest"
  shows "scan_int (dec i @ rest) = Some (i, rest)"
proof (cases "i < 0")
  case False
  then show ?thesis
    using scan_int_dec_nat [OF assms, of "nat i"] by (simp add: dec_def)
next
  case True
  obtain d ds where d: "dec_nat (nat (- i)) = d # ds"
    using dec_nat_not_Nil [of "nat (- i)"] by (cases "dec_nat (nat (- i))") auto
  then have dig: "isdigit d"
    using dec_nat_digits [of "nat (- i)"] by simp
  have "scan_digits (d # ds @ rest) 0 = (nat (- i), rest)"
    using scan_digits_dec_nat [OF assms, of "nat (- i)"] d by simp
  then show ?thesis
    using True dig by (simp add: scan_int_def scan_signed_def dec_def d isspace_def del: scan_digits.simps)
qed

lemma length_dec_nat: "n < 10 ^ k \<Longrightarrow> 0 < k \<Longrightarrow> length (dec_nat n) \<le> k"
proof (induction n arbitrary: k rule: dec_nat.induct)
  case (1 n)
  show ?case
  proof (cases "n < 10")
    case True
    with "1.prems" show ?thesis by (subst dec_nat.simps) simp
  next
    case False
    have "k \<noteq> 1"
      using False "1.prems" by auto
    then obtain j where k: "k = Suc j" "0 < j"
      using "1.prems" by (cases k) auto
    with "1.prems" have "n < 10 * 10 ^ j" by simp
    then have "n div 10 < 10 ^ j"
      by (simp add: less_mult_imp_div_less mult.commute)
    with "1.IH" [OF False] k have "length (dec_nat (n div 10)) \<le> j" by simp
    with False k show ?thesis by (subst dec_nat.simps) simp
  qed
qed

lemma length_dec: "int_range i \<Longrightarrow> length (dec i) \<le> 11"
proof -
  assume r: "int_range i"
  then have "nat \<bar>i\<bar> < 10000000000"
    unfolding int_range_def INT_MIN_def INT_MAX_def by linarith
  then have "nat \<bar>i\<bar> < 10 ^ 10"
    by simp
  then have "length (dec_nat (nat \<bar>i\<bar>)) \<le> 10"
    by (rule length_dec_nat) simp
  then show ?thesis
    by (simp add: dec_def abs_if split: if_splits)
qed

section \<open>Properties of the command processor\<close>

lemma processCommand_overwrites:
  "processCommand (Some s) (Some r1) = processCommand (Some s) (Some r2)"
  by (simp add: processCommand_def)

lemma processCommand_OFF:
  "processCommand (Some ''OFF'') (Some r) =
     Some \<lparr>result = COMMAND_ACCEPTED, response = ''ACCEPTED,OFF''\<rparr>"
  by (simp add: processCommand_def)

lemma processCommand_ON:
  "processCommand (Some ''ON'') (Some r) =
     Some \<lparr>result = COMMAND_ACCEPTED, response = ''ACCEPTED,ON''\<rparr>"
  by (simp add: processCommand_def)

lemma handler_OFF:
  "SerialCommandHandler_processCommand L now ''OFF'' l =
     (fst (led_turnOff l), snd (led_turnOff l), [''ACCEPTED,OFF''])"
  by (simp add: SerialCommandHandler_processCommand_def processCommand_OFF split: prod.splits)

section \<open>Properties of the backends\<close>

text \<open>
  C7. On the Digital backend, for all arguments, \<open>setColor(r,g,b)\<close> gives the same state
  and the same pin write as \<open>turnOn()\<close>, \<open>startBlink2\<close> the same as \<open>startBlink\<close> with the
  first colour triple, and \<open>startRainbow(interval)\<close> the same as \<open>turnOn()\<close>; the same
  holds through the virtual dispatch.
\<close>

theorem digital_degradation:
  "d_setColor r g b s = d_turnOn s
   \<and> d_startBlink2 r1 g1 b1 r2 g2 b2 interval now s = d_startBlink r1 g1 b1 interval now s
   \<and> d_startRainbow interval s = d_turnOn s
   \<and> led_setColor L r g b (Digital s) = led_turnOn L (Digital s)
   \<and> led_startBlink2 L r1 g1 b1 r2 g2 b2 interval now (Digital s)
       = led_startBlink L r1 g1 b1 interval now (Digital s)
   \<and> led_startRainbow interval now (Digital s) = led_turnOn L (Digital s)"
  by (simp add: d_setColor_def d_turnOn_def d_startBlink2_def d_startRainbow_def)

theorem digital_degradation_witness:
  "d_setColor 10 20 30 d0
     = (\<lparr>previousUpdateMillis = 0, currentInterval = 500, animationEnabled = False,
         pin = 13, currentState = 1, blinkEnabled = False, blinkStateD = False\<rparr>,
        [DigitalWrite 13 1])
   \<and> d_startBlink2 1 2 3 4 5 6 250 1000 d0
     = (\<lparr>previousUpdateMillis = 1000, currentInterval = 250, animationEnabled = True,
         pin = 13, currentState = 0, blinkEnabled = False, blinkStateD = False\<rparr>,
        [DigitalWrite 13 0])
   \<and> d_startRainbow 250 d0
     = (\<lparr>previousUpdateMillis = 0, currentInterval = 500, animationEnabled = False,
         pin = 13, currentState = 1, blinkEnabled = False, blinkStateD = False\<rparr>,
        [DigitalWrite 13 1])"
  using digital_degradation [where r = 10 and g = 20 and b = 30
      and s = d0 and ?r1.0 = 1 and ?g1.0 = 2 and ?b1.0 = 3
      and ?r2.0 = 4 and ?g2.0 = 5 and ?b2.0 = 6 and interval = 250 and now = 1000]
  by (simp add: d_turnOn_def d_startBlink_def d_setLEDState_def d_stopAnimation_def
      d0_def DigitalLEDController_new_def HIGH_def LOW_def)

text \<open>
  C9. \<open>turnOff\<close> is idempotent on both backends: a second \<open>turnOff\<close> gives the same
  controller state and the same hardware calls as the first; after each one the
  animation is idle (disabled, mode \<open>NONE\<close>, \<open>update()\<close> does nothing). Through
  the command path, \<open>OFF\<close> issued twice prints \<open>ACCEPTED,OFF\<close> both times and reaches the
  same backend state.
\<close>

theorem turnOff_idempotent:
  "np_turnOff (fst (np_turnOff s)) = np_turnOff s
   \<and> \<not> animationEnabled (fst (np_turnOff s)) \<and> animationMode (fst (np_turnOff s)) = NONE
   \<and> np_update L t (fst (np_turnOff s)) = (fst (np_turnOff s), [])
   \<and> d_turnOff (fst (d_turnOff d)) = d_turnOff d
   \<and> \<not> animationEnabled (fst (d_turnOff d))
   \<and> d_update t (fst (d_turnOff d)) = (fst (d_turnOff d), [])
   \<and> led_turnOff (fst (led_turnOff l)) = led_turnOff l
   \<and> SerialCommandHandler_processCommand L now ''OFF'' l
       = (fst (led_turnOff l), snd (led_turnOff l), [''ACCEPTED,OFF''])
   \<and> SerialCommandHandler_processCommand L now' ''OFF'' (fst (led_turnOff l))
       = (fst (led_turnOff l), snd (led_turnOff l), [''ACCEPTED,OFF''])"
proof -
  have np: "np_turnOff (fst (np_turnOff s)) = np_turnOff s"
    by (simp add: np_turnOff_def np_stopAnimation_def)
  have d: "d_turnOff (fst (d_turnOff d)) = d_turnOff d"
    by (simp add: d_turnOff_def d_stopAnimation_def d_setLEDState_def)
  have l: "led_turnOff (fst (led_turnOff l)) = led_turnOff l" for l
  proof (cases l)
    case (Digital x)
    then show ?thesis
      by (simp add: d_turnOff_def d_stopAnimation_def d_setLEDState_def)
  next
    case (NeoPixel x)
    then show ?thesis
      by (simp add: np_turnOff_def np_stopAnimation_def)
  qed
  have idle_np: "\<not> animationEnabled (fst (np_turnOff s))
     \<and> animationMode (fst (np_turnOff s)) = NONE
     \<and> np_update L t (fst (np_turnOff s)) = (fst (np_turnOff s), [])"
    by (simp add: np_turnOff_def np_stopAnimation_def np_update_def)
  have idle_d: "\<not> animationEnabled (fst (d_turnOff d))
     \<and> d_update t (fst (d_turnOff d)) = (fst (d_turnOff d), [])"
    by (simp add: d_turnOff_def d_stopAnimation_def d_setLEDState_def d_update_def)
  show ?thesis
    using np d l idle_np idle_d by (simp add: handler_OFF)
qed

theorem turnOff_idempotent_witness:
  "np_turnOff (fst (np_turnOff (fst (np_startRainbow 50 1000 np0))))
     = (\<lparr>previousUpdateMillis = 1000, currentInterval = 50, animationEnabled = False,
         powerPin = 11, animationMode = NONE, color1 = 0, color2 = 0,
         blinkState = False, rainbowHue = 0\<rparr>, [PixelsClear, PixelsShow])
   \<and> d_turnOff (fst (d_turnOff (fst (d_startBlink 1 2 3 250 1000 d0))))
     = (\<lparr>previousUpdateMillis = 1000, currentInterval = 250, animationEnabled = False,
         pin = 13, currentState = 0, blinkEnabled = False, blinkStateD = False\<rparr>,
        [DigitalWrite 13 0])"
  using turnOff_idempotent [where s = "fst (np_startRainbow 50 1000 np0)"
      and d = "fst (d_startBlink 1 2 3 250 1000 d0)" and l = "Digital d0"
      and L = rgb_driver and t = 0 and now = 0 and now' = 0]
  by (simp add: np_turnOff_def np_stopAnimation_def np_startRainbow_def np0_def
      NeoPixelLEDController_new_def d_turnOff_def d_stopAnimation_def d_setLEDState_def
      d_startBlink_def d0_def DigitalLEDController_new_def LOW_def)

lemma np_update_idle:
  "\<not> animationEnabled s \<or> now - previousUpdateMillis s < currentInterval s
     \<Longrightarrow> np_update L now s = (s, [])"
  by (auto simp: np_update_def)

text \<open>
  C5. For every backend state and every clock value, one \<open>update()\<close> call performs no
  phase advance when the animation is idle (disabled, or enabled with mode \<open>NONE\<close>) or
  the time elapsed since the last phase change is below the interval, and then changes
  nothing unless it is enabled with the interval elapsed; otherwise it performs
  exactly one: the timestamp becomes \<open>now\<close>, a blink phase flag is toggled once or the hue
  moves one step, and the LED is rewritten once, however many intervals have elapsed.
\<close>

theorem update_zero_or_one_phase_advance:
  "phase_advances (snd (np_update L now s))
     = (if animationEnabled s \<and> animationMode s \<noteq> NONE
           \<and> \<not> now - previousUpdateMillis s < currentInterval s then 1 else 0)
   \<and> (if animationEnabled s \<and> \<not> now - previousUpdateMillis s < currentInterval s
       then previousUpdateMillis (fst (np_update L now s)) = now
          \<and> blinkState (fst (np_update L now s))
              = (if animationMode s = BLINK1 \<or> animationMode s = BLINK2
                 then \<not> blinkState s else blinkState s)
          \<and> rainbowHue (fst (np_update L now s))
              = (if animationMode s = RAINBOW
                 then (if rainbowHue s + 256 > 65535 then 0 else rainbowHue s + 256)
                 else rainbowHue s)
       else np_update L now s = (s, []))
   \<and> phase_advances (snd (d_update now d))
     = (if animationEnabled d \<and> currentInterval d \<le> now - previousUpdateMillis d
        then 1 else 0)
   \<and> (if animationEnabled d \<and> currentInterval d \<le> now - previousUpdateMillis d
       then previousUpdateMillis (fst (d_update now d)) = now
          \<and> blinkStateD (fst (d_update now d)) = (\<not> blinkStateD d)
          \<and> snd (d_update now d) = [DigitalWrite (pin d) (if blinkStateD d then LOW else HIGH)]
       else d_update now d = (d, []))"
proof -
  have np_count: "phase_advances (snd (np_update L now s))
     = (if animationEnabled s \<and> animationMode s \<noteq> NONE
           \<and> \<not> now - previousUpdateMillis s < currentInterval s then 1 else 0)"
    by (cases "animationMode s") (simp_all add: np_update_def phase_advances_def Let_def)
  have np_state: "(if animationEnabled s \<and> \<not> now - previousUpdateMillis s < currentInterval s
       then previousUpdateMillis (fst (np_update L now s)) = now
          \<and> blinkState (fst (np_update L now s))
              = (if animationMode s = BLINK1 \<or> animationMode s = BLINK2
                 then \<not> blinkState s else blinkState s)
          \<and> rainbowHue (fst (np_update L now s))
              = (if animationMode s = RAINBOW
                 then (if rainbowHue s + 256 > 65535 then 0 else rainbowHue s + 256)
                 else rainbowHue s)
       else np_update L now s = (s, []))"
    by (cases "animationMode s") (simp_all add: np_update_def Let_def)
  have d_count: "phase_advances (snd (d_update now d))
     = (if animationEnabled d \<and> currentInterval d \<le> now - previousUpdateMillis d
        then 1 else 0)"
    by (simp add: d_update_def d_setLEDState_def phase_advances_def Let_def)
  have d_state: "(if animationEnabled d \<and> currentInterval d \<le> now - previousUpdateMillis d
       then previousUpdateMillis (fst (d_update now d)) = now
          \<and> blinkStateD (fst (d_update now d)) = (\<not> blinkStateD d)
          \<and> snd (d_update now d) = [DigitalWrite (pin d) (if blinkStateD d then LOW else HIGH)]
       else d_update now d = (d, []))"
    by (simp add: d_update_def d_setLEDState_def Let_def)
  show ?thesis
    using np_count np_state d_count d_state by blast
qed

theorem update_zero_or_one_phase_advance_witness:
  "phase_advances (snd (np_update rgb_driver 5000 (fst (np_startBlink rgb_driver 255 0 0 500 0 np0)))) = 1
   \<and> np_update rgb_driver 5000 (fst (np_startBlink rgb_driver 255 0 0 500 0 np0))
       = (\<lparr>previousUpdateMillis = 5000, currentInterval = 500, animationEnabled = True,
           powerPin = 11, animationMode = BLINK1, color1 = 16711680, color2 = 0,
           blinkState = True, rainbowHue = 0\<rparr>,
          [SetPixelColor 0 16711680, PixelsShow])
   \<and> phase_advances (snd (d_update 5000 (fst (d_startBlink 255 0 0 500 0 d0)))) = 1
   \<and> d_update 5000 (fst (d_startBlink 255 0 0 500 0 d0))
       = (\<lparr>previousUpdateMillis = 5000, currentInterval = 500, animationEnabled = True,
           pin = 13, currentState = 1, blinkEnabled = False, blinkStateD = True\<rparr>,
          [DigitalWrite 13 1])"
  using update_zero_or_one_phase_advance [where L = rgb_driver and now = 5000
      and s = "fst (np_startBlink rgb_driver 255 0 0 500 0 np0)"
      and d = "fst (d_startBlink 255 0 0 500 0 d0)"]
  by (simp add: np_update_def np_startBlink_def np0_def NeoPixelLEDController_new_def
      createColor_def rgb_driver_def d_update_def d_startBlink_def d_setLEDState_def d0_def
      DigitalLEDController_new_def phase_advances_def HIGH_def LOW_def Let_def)

lemma np_exec_inv: "np_inv s \<Longrightarrow> np_inv (fst (np_exec L c s))"
  by (cases c; cases "animationMode s")
     (auto simp: np_inv_def np_initialize_def np_update_def np_turnOn_def np_turnOff_def
       np_setColor_def np_startBlink_def np_startBlink2_def np_startRainbow_def
       np_stopAnimation_def Let_def)

lemma np_run_inv: "np_inv s \<Longrightarrow> np_inv (np_run L cs s)"
  by (induction cs arbitrary: s) (simp_all add: np_exec_inv)

lemma np_new_inv: "np_inv (fst (NeoPixelLEDController_new p br c1 c2))"
  by (simp add: np_inv_def NeoPixelLEDController_new_def)

lemma np_run_invariant: "np_inv (np_run L cs (fst (NeoPixelLEDController_new p br c1 c2)))"
  by (simp add: np_run_inv np_new_inv)

text \<open>
  C8. In the Rainbow state, a phase advance of \<open>update()\<close> moves the hue accumulator by
  256 (1/256 of the 65536 hues) and sets it to 0 when the sum passes 65535, so from a
  value within 0 and 65535 it stays there, and from a multiple of 256 the step is
  addition modulo 65536; the colour handed to \<open>setPixelColor\<close> (which writes it to the
  strip) is \<open>gamma32\<close> of \<open>ColorHSV\<close> of the accumulator before the step. In every state
  the operations reach from the constructor the accumulator is within 0 and 65535.
\<close>

theorem rainbow_hue_step:
  "(animationEnabled s \<and> animationMode s = RAINBOW
      \<and> \<not> now - previousUpdateMillis s < currentInterval s
      \<and> 0 \<le> rainbowHue s \<and> rainbowHue s \<le> 65535
    \<longrightarrow> rainbowHue (fst (np_update L now s))
          = (if rainbowHue s + 256 \<le> 65535 then rainbowHue s + 256 else 0)
      \<and> 0 \<le> rainbowHue (fst (np_update L now s))
      \<and> rainbowHue (fst (np_update L now s)) \<le> 65535
      \<and> (rainbowHue s mod 256 = 0
           \<longrightarrow> rainbowHue (fst (np_update L now s)) = (rainbowHue s + 256) mod 65536)
      \<and> snd (np_update L now s)
          = [SetPixelColor 0 (gamma32 L (ColorHSV L (word_of_int (rainbowHue s)))), PixelsShow])
   \<and> 0 \<le> rainbowHue (np_run L cs (fst (NeoPixelLEDController_new p br c1 c2)))
   \<and> rainbowHue (np_run L cs (fst (NeoPixelLEDController_new p br c1 c2))) \<le> 65535
   \<and> rainbowHue (fst (np_startRainbow interval now s)) = 0"
proof -
  have step: "rainbowHue (fst (np_update L now s))
          = (if rainbowHue s + 256 \<le> 65535 then rainbowHue s + 256 else 0)
      \<and> snd (np_update L now s)
          = [SetPixelColor 0 (gamma32 L (ColorHSV L (word_of_int (rainbowHue s)))), PixelsShow]"
    if "animationEnabled s" "animationMode s = RAINBOW"
      "\<not> now - previousUpdateMillis s < currentInterval s"
    using that by (simp add: np_update_def Let_def)
  have wrap: "(if h + 256 \<le> 65535 then h + 256 else 0) = (h + 256) mod 65536"
    if "0 \<le> h" "h \<le> 65535" "h mod 256 = 0" for h :: int
  proof (cases "h + 256 \<le> 65535")
    case True
    with that show ?thesis by simp
  next
    case False
    with that have "h + 256 = 65536" by presburger
    with False show ?thesis by simp
  qed
  have inv: "np_inv (np_run L cs (fst (NeoPixelLEDController_new p br c1 c2)))"
    by (rule np_run_invariant)
  have start: "rainbowHue (fst (np_startRainbow interval now s)) = 0"
    by (simp add: np_startRainbow_def)
  show ?thesis
    using step wrap inv start by (auto simp: np_inv_def)
qed

theorem rainbow_hue_step_witness:
  "np_update rgb_driver 50 ((fst (np_startRainbow 50 0 np0))\<lparr>rainbowHue := 65280\<rparr>)
     = (\<lparr>previousUpdateMillis = 50, currentInterval = 50, animationEnabled = True,
         powerPin = 11, animationMode = RAINBOW, color1 = 0, color2 = 0,
         blinkState = False, rainbowHue = 0\<rparr>,
        [SetPixelColor 0 65281, PixelsShow])
   \<and> rainbowHue (fst (np_update rgb_driver 50 (fst (np_startRainbow 50 0 np0)))) = 256
   \<and> rainbowHue (np_run rgb_driver [StartRainbow 50 0, Update 50, Update 100]
        (fst (NeoPixelLEDController_new 11 128 0 0))) = 512"
  using rainbow_hue_step [where L = rgb_driver and now = 50
      and s = "(fst (np_startRainbow 50 0 np0))\<lparr>rainbowHue := 65280\<rparr>"
      and cs = "[StartRainbow 50 0, Update 50, Update 100]"
      and p = 11 and br = 128 and ?c1.0 = 0 and ?c2.0 = 0 and interval = 50]
  by (simp add: np_update_def np_startRainbow_def np0_def NeoPixelLEDController_new_def
      rgb_driver_def Let_def)

section \<open>Properties of the line assembler and the loop\<close>

lemma overflow_line:
  "sendRejected ''BUFFER_OVERFLOW'' ''command too long''
     = ''REJECT,BUFFER_OVERFLOW,command too long''"
  by (simp add: sendRejected_def sendResponse_def)

lemma handleSerial_append:
  "CHR 0x0A \<notin> set xs \<Longrightarrow> length (serialBuffer h) + length xs \<le> 60
     \<Longrightarrow> handleSerial (xs @ rest) h out
         = handleSerial rest (h\<lparr>serialBuffer := serialBuffer h @ xs\<rparr>) out"
proof (induction xs arbitrary: h)
  case Nil
  then show ?case by simp
next
  case (Cons c cs)
  then show ?case by (auto simp: Let_def)
qed

lemma handleSerial_overflow_step:
  "c \<noteq> CHR 0x0A \<Longrightarrow> length (serialBuffer h) \<ge> 60
     \<Longrightarrow> handleSerial (c # rest) h out
         = handleSerial rest (h\<lparr>serialBuffer := []\<rparr>)
             (out @ [''REJECT,BUFFER_OVERFLOW,command too long''])"
  by (simp add: Let_def overflow_line)

text \<open>
  C6. When bytes without a newline bring the line buffer to 61 characters, the buffer is
  cleared and the one line \<open>REJECT,BUFFER_OVERFLOW,command too long\<close> is printed (a
  constant: none of the discarded text is in it): \<open>handleSerial\<close> returns with the
  input read, the buffer empty and that line appended to the output. Processing
  continues: bytes that follow are read from the empty buffer, so a following line
  is completed as usual, and the loop iteration prints the one line, leaves the handler
  with the empty buffer and gives the backend its tick.
\<close>

theorem buffer_overflow_rejected:
  assumes "CHR 0x0A \<notin> set xs" and "length (serialBuffer h) + length xs = 61"
    and "xs \<noteq> []"
  shows "handleSerial xs h out
           = ([], h\<lparr>serialBuffer := []\<rparr>,
              out @ [''REJECT,BUFFER_OVERFLOW,command too long''])
       \<and> handleSerial (xs @ rest) h out
           = handleSerial rest (h\<lparr>serialBuffer := []\<rparr>)
               (out @ [''REJECT,BUFFER_OVERFLOW,command too long''])
       \<and> (ys \<noteq> [] \<and> CHR 0x0A \<notin> set ys \<and> length ys \<le> 60
            \<longrightarrow> handleSerial (xs @ ys @ CHR 0x0A # rest) h out
                  = (rest, h\<lparr>serialBuffer := trim ys, commandReady := True\<rparr>,
                     out @ [''REJECT,BUFFER_OVERFLOW,command too long'']))
       \<and> (commandHandler w = h \<and> \<not> commandReady h \<and> serial_in w = xs
            \<longrightarrow> serial_out (universalLoop L tu tc w)
                  = serial_out w @ [''REJECT,BUFFER_OVERFLOW,command too long'']
              \<and> commandHandler (universalLoop L tu tc w) = h\<lparr>serialBuffer := []\<rparr>
              \<and> serial_in (universalLoop L tu tc w) = []
              \<and> ledController (universalLoop L tu tc w)
                  = fst (led_update L tu (ledController w)))"
proof -
  from assms(3) obtain zs c where xs: "xs = zs @ [c]"
    by (metis rev_exhaust)
  with assms have zs: "CHR 0x0A \<notin> set zs" "length (serialBuffer h) + length zs = 60"
    and c: "c \<noteq> CHR 0x0A"
    by auto
  have g: "handleSerial (xs @ rest) h out
          = handleSerial rest (h\<lparr>serialBuffer := []\<rparr>)
              (out @ [''REJECT,BUFFER_OVERFLOW,command too long''])" for rest out
  proof -
    have "handleSerial (xs @ rest) h out
          = handleSerial (c # rest) (h\<lparr>serialBuffer := serialBuffer h @ zs\<rparr>) out"
      using handleSerial_append [of zs h "c # rest" out] zs by (simp add: xs)
    also have "\<dots> = handleSerial rest (h\<lparr>serialBuffer := []\<rparr>)
                      (out @ [''REJECT,BUFFER_OVERFLOW,command too long''])"
      using handleSerial_overflow_step [of c "h\<lparr>serialBuffer := serialBuffer h @ zs\<rparr>" rest out]
        c zs by simp
    finally show ?thesis .
  qed
  have a: "handleSerial xs h out
           = ([], h\<lparr>serialBuffer := []\<rparr>,
              out @ [''REJECT,BUFFER_OVERFLOW,command too long''])" for out
    using g [of "[]" out] by simp
  have b: "handleSerial (xs @ ys @ CHR 0x0A # rest) h out
                  = (rest, h\<lparr>serialBuffer := trim ys, commandReady := True\<rparr>,
                     out @ [''REJECT,BUFFER_OVERFLOW,command too long''])"
    if "ys \<noteq> []" "CHR 0x0A \<notin> set ys" "length ys \<le> 60"
  proof -
    have "handleSerial (xs @ ys @ CHR 0x0A # rest) h out
            = handleSerial (ys @ CHR 0x0A # rest) (h\<lparr>serialBuffer := []\<rparr>)
                (out @ [''REJECT,BUFFER_OVERFLOW,command too long''])"
      by (rule g)
    also have "\<dots> = handleSerial (CHR 0x0A # rest) (h\<lparr>serialBuffer := ys\<rparr>)
                (out @ [''REJECT,BUFFER_OVERFLOW,command too long''])"
      using handleSerial_append [of ys "h\<lparr>serialBuffer := []\<rparr>" "CHR 0x0A # rest"] that
      by simp
    also have "\<dots> = (rest, h\<lparr>serialBuffer := trim ys, commandReady := True\<rparr>,
                     out @ [''REJECT,BUFFER_OVERFLOW,command too long''])"
      using that(1) by simp
    finally show ?thesis .
  qed
  have d: "serial_out (universalLoop L tu tc w)
                  = serial_out w @ [''REJECT,BUFFER_OVERFLOW,command too long'']
              \<and> commandHandler (universalLoop L tu tc w) = h\<lparr>serialBuffer := []\<rparr>
              \<and> serial_in (universalLoop L tu tc w) = []
              \<and> ledController (universalLoop L tu tc w)
                  = fst (led_update L tu (ledController w))"
    if "commandHandler w = h" "\<not> commandReady h" "serial_in w = xs"
    using that a [of "serial_out w"]
    by (simp add: universalLoop_def processCommands_def split: prod.splits)
  show ?thesis
    using a [of out] g [of rest out] b d by blast
qed

theorem buffer_overflow_rejected_witness:
  "handleSerial (replicate 61 (CHR ''A'')) SerialCommandHandler_new []
     = ([], \<lparr>serialBuffer = [], commandReady = False\<rparr>,
        [''REJECT,BUFFER_OVERFLOW,command too long''])
   \<and> handleSerial (replicate 61 (CHR ''A'') @ ''ON'' @ CHR 0x0A # ''x'') SerialCommandHandler_new []
     = (''x'', \<lparr>serialBuffer = ''ON'', commandReady = True\<rparr>,
        [''REJECT,BUFFER_OVERFLOW,command too long''])"
  using buffer_overflow_rejected [where xs = "replicate 61 (CHR ''A'')"
      and h = SerialCommandHandler_new and out = "[]" and ys = "''ON''" and rest = "''x''"
      and w = "blink_board\<lparr>serial_in := replicate 61 (CHR ''A'')\<rparr>"
      and L = rgb_driver and tu = 0 and tc = 0]
  by (simp add: SerialCommandHandler_new_def trim_def isspace_def)

lemma trim_all_space: "\<forall>c\<in>set ws. isspace c \<Longrightarrow> trim ws = []"
  by (auto simp: trim_def dest: set_dropWhileD)

lemma processCommand_empty:
  "processCommand (Some []) (Some r)
     = Some \<lparr>result = COMMAND_REJECTED, response = ''REJECT,,unknown command''\<rparr>"
  by (simp add: processCommand_def unknown_empty_def)

lemma processCommand_NULL:
  "processCommand None (Some r)
     = Some \<lparr>result = COMMAND_REJECTED, response = ''REJECT,,unknown command''\<rparr>"
  by (simp add: processCommand_def unknown_empty_def)

lemma handler_empty:
  "SerialCommandHandler_processCommand L now [] l = (l, [], [''REJECT,,unknown command''])"
  by (simp add: SerialCommandHandler_processCommand_def processCommand_empty)

text \<open>
  C10. A line of white space only (at most 60 characters, none of them a newline,
  arriving on an empty buffer) followed by the newline is not dropped: the buffer is not
  empty at the newline, \<open>trim\<close> empties it, the command is marked ready, and processing
  it prints \<open>REJECT,,unknown command\<close> and leaves the backend to \<open>update()\<close> alone. A
  newline on an empty buffer is skipped without output. \<open>processCommand\<close> answers a NULL
  or empty command with the same rejection.
\<close>

theorem whitespace_line_rejected:
  assumes "ws \<noteq> []" and "\<forall>c\<in>set ws. isspace c \<and> c \<noteq> CHR 0x0A" and "length ws \<le> 60"
    and "serialBuffer h = []"
  shows "handleSerial (ws @ CHR 0x0A # rest) h out
           = (rest, h\<lparr>serialBuffer := [], commandReady := True\<rparr>, out)
       \<and> processCommands L now (h\<lparr>serialBuffer := [], commandReady := True\<rparr>) l
           = (h\<lparr>serialBuffer := [], commandReady := False\<rparr>, l, [],
              [''REJECT,,unknown command''])
       \<and> handleSerial (CHR 0x0A # rest) h out = handleSerial rest h out
       \<and> processCommand None (Some r)
           = Some \<lparr>result = COMMAND_REJECTED, response = ''REJECT,,unknown command''\<rparr>
       \<and> processCommand (Some []) (Some r)
           = Some \<lparr>result = COMMAND_REJECTED, response = ''REJECT,,unknown command''\<rparr>
       \<and> (commandHandler w = h \<and> serial_in w = ws @ CHR 0x0A # rest
            \<longrightarrow> serial_out (universalLoop L tu now w)
                  = serial_out w @ [''REJECT,,unknown command'']
              \<and> ledController (universalLoop L tu now w)
                  = fst (led_update L tu (ledController w)))"
proof -
  have nl: "CHR 0x0A \<notin> set ws"
    using assms(2) by auto
  have a1: "handleSerial (ws @ CHR 0x0A # rest) h out
          = handleSerial (CHR 0x0A # rest) (h\<lparr>serialBuffer := ws\<rparr>) out" for out
    using handleSerial_append [of ws h "CHR 0x0A # rest" out] nl assms(3,4) by simp
  have a2: "handleSerial (CHR 0x0A # rest) (h\<lparr>serialBuffer := ws\<rparr>) out
          = (rest, h\<lparr>serialBuffer := [], commandReady := True\<rparr>, out)" for out
    using assms(1,2) by (simp add: trim_all_space)
  have a: "handleSerial (ws @ CHR 0x0A # rest) h out
          = (rest, h\<lparr>serialBuffer := [], commandReady := True\<rparr>, out)" for out
    by (simp only: a1 a2)
  have b: "processCommands L now (h\<lparr>serialBuffer := [], commandReady := True\<rparr>) l
           = (h\<lparr>serialBuffer := [], commandReady := False\<rparr>, l, [],
              [''REJECT,,unknown command''])" for l
    by (simp add: processCommands_def handler_empty)
  have c: "handleSerial (CHR 0x0A # rest) h out = handleSerial rest h out"
    using assms(4) by simp
  have d: "serial_out (universalLoop L tu now w) = serial_out w @ [''REJECT,,unknown command'']
       \<and> ledController (universalLoop L tu now w) = fst (led_update L tu (ledController w))"
    if "commandHandler w = h" "serial_in w = ws @ CHR 0x0A # rest"
  proof -
    have "handleSerial (serial_in w) (commandHandler w) (serial_out w)
            = (rest, h\<lparr>serialBuffer := [], commandReady := True\<rparr>, serial_out w)"
      using that a [of "serial_out w"] by simp
    then show ?thesis
      by (simp add: universalLoop_def b split: prod.splits)
  qed
  show ?thesis
    using a [of out] b [of l] c d by (simp add: processCommand_empty processCommand_NULL)
qed

theorem whitespace_line_rejected_witness:
  "handleSerial ('' '' @ [CHR 0x09, CHR 0x0D] @ CHR 0x0A # ''ON'') SerialCommandHandler_new []
     = (''ON'', \<lparr>serialBuffer = [], commandReady = True\<rparr>, [])
   \<and> processCommands rgb_driver 0 \<lparr>serialBuffer = [], commandReady = True\<rparr> (Digital d0)
     = (\<lparr>serialBuffer = [], commandReady = False\<rparr>, Digital d0, [],
        [''REJECT,,unknown command''])"
  using whitespace_line_rejected [where ws = "'' '' @ [CHR 0x09, CHR 0x0D]"
      and h = SerialCommandHandler_new and rest = "''ON''" and out = "[]"
      and L = rgb_driver and now = 0 and l = "Digital d0" and r = response_local
      and w = blink_board and tu = 0]
  by (simp add: SerialCommandHandler_new_def isspace_def)

text \<open>
  C1, as the code has it. In every iteration of \<open>universalLoop\<close> the input is drained
  first, then \<open>update()\<close> runs, whether or not a command arrived, on the backend state
  from before the iteration, and only then a completed command is processed, on the
  state \<open>update()\<close> left: the hardware calls of the tick come before those of the
  command.
\<close>

theorem update_precedes_dispatch:
  "(case handleSerial (serial_in w) (commandHandler w) (serial_out w) of
      (inp, h1, out1) \<Rightarrow>
        hardware (universalLoop L tu tc w)
          = hardware w @ snd (led_update L tu (ledController w))
            @ (if commandReady h1
               then fst (snd (SerialCommandHandler_processCommand L tc (serialBuffer h1)
                               (fst (led_update L tu (ledController w)))))
               else [])
        \<and> ledController (universalLoop L tu tc w)
          = (if commandReady h1
             then fst (SerialCommandHandler_processCommand L tc (serialBuffer h1)
                        (fst (led_update L tu (ledController w))))
             else fst (led_update L tu (ledController w))))"
  by (simp add: universalLoop_def processCommands_def split: prod.splits)

theorem update_precedes_dispatch_witness:
  "hardware (universalLoop rgb_driver 1000 1000 blink_board)
     = [] @ [DigitalWrite 13 1] @ [DigitalWrite 13 0]
   \<and> led_update rgb_driver 1000 (ledController blink_board)
     = (Digital \<lparr>previousUpdateMillis = 1000, currentInterval = 500,
          animationEnabled = True, pin = 13, currentState = 1, blinkEnabled = False,
          blinkStateD = True\<rparr>, [DigitalWrite 13 1])
   \<and> ledController (universalLoop rgb_driver 1000 1000 blink_board)
     = Digital \<lparr>previousUpdateMillis = 1000, currentInterval = 500,
          animationEnabled = False, pin = 13, currentState = 0, blinkEnabled = False,
          blinkStateD = True\<rparr>"
  using update_precedes_dispatch [where w = blink_board and L = rgb_driver and tu = 1000
      and tc = 1000]
  by (simp add: blink_board_def SerialCommandHandler_new_def trim_def
      isspace_def d_update_def d_startBlink_def d_setLEDState_def d0_def
      DigitalLEDController_new_def handler_OFF d_turnOff_def
      d_stopAnimation_def HIGH_def LOW_def Let_def)

text \<open>
  The order the claim states (dispatch before the tick) differs from the code on
  \<open>blink_board\<close> at clock 1000: the code lets the due blink tick switch the LED on before
  \<open>OFF\<close> switches it off; dispatching first would make the tick a no-op.
\<close>

lemma blink_board_loop:
  "universalLoop rgb_driver 1000 1000 blink_board
     = \<lparr>ledController = Digital \<lparr>previousUpdateMillis = 1000, currentInterval = 500,
          animationEnabled = False, pin = 13, currentState = 0, blinkEnabled = False,
          blinkStateD = True\<rparr>,
        commandHandler = \<lparr>serialBuffer = [], commandReady = False\<rparr>,
        serial_in = [], serial_out = [''ACCEPTED,OFF''],
        hardware = [DigitalWrite 13 1, DigitalWrite 13 0]\<rparr>"
  by (simp add: universalLoop_def blink_board_def SerialCommandHandler_new_def trim_def
      isspace_def d_update_def d_startBlink_def d_setLEDState_def d0_def
      DigitalLEDController_new_def processCommands_def handler_OFF d_turnOff_def
      d_stopAnimation_def HIGH_def LOW_def Let_def)

lemma blink_board_spec:
  "spec_loop_dispatch_first rgb_driver 1000 1000 blink_board
     = \<lparr>ledController = Digital \<lparr>previousUpdateMillis = 0, currentInterval = 500,
          animationEnabled = False, pin = 13, currentState = 0, blinkEnabled = False,
          blinkStateD = False\<rparr>,
        commandHandler = \<lparr>serialBuffer = [], commandReady = False\<rparr>,
        serial_in = [], serial_out = [''ACCEPTED,OFF''],
        hardware = [DigitalWrite 13 0]\<rparr>"
  by (simp add: spec_loop_dispatch_first_def blink_board_def SerialCommandHandler_new_def trim_def
      isspace_def d_update_def d_startBlink_def d_setLEDState_def d0_def
      DigitalLEDController_new_def processCommands_def handler_OFF d_turnOff_def
      d_stopAnimation_def HIGH_def LOW_def Let_def)

theorem dispatch_before_update_counterexample:
  "hardware (universalLoop rgb_driver 1000 1000 blink_board)
     = [DigitalWrite 13 1, DigitalWrite 13 0]
   \<and> hardware (spec_loop_dispatch_first rgb_driver 1000 1000 blink_board) = [DigitalWrite 13 0]
   \<and> universalLoop rgb_driver 1000 1000 blink_board
       \<noteq> spec_loop_dispatch_first rgb_driver 1000 1000 blink_board"
  by (simp add: blink_board_loop blink_board_spec)


section \<open>State replacement on the NeoPixel backend\<close>

lemma same_animation_update:
  "same_animation s s' \<Longrightarrow>
     snd (np_update L t s) = snd (np_update L t s')
     \<and> same_animation (fst (np_update L t s)) (fst (np_update L t s'))"
  by (cases "animationMode s"; cases "animationMode s'")
     (auto simp: same_animation_def np_update_def Let_def)

lemma same_animation_ticks:
  "same_animation s s' \<Longrightarrow> np_ticks L ts s = np_ticks L ts s'"
proof (induction ts arbitrary: s s')
  case Nil
  then show ?case by simp
next
  case (Cons t ts)
  from same_animation_update [OF Cons.prems, of L t]
  have ev: "snd (np_update L t s) = snd (np_update L t s')"
    and st: "same_animation (fst (np_update L t s)) (fst (np_update L t s'))"
    by simp_all
  from Cons.IH [OF st] ev show ?case
    by (simp add: split_beta)
qed

lemma start_same:
  "same_animation (fst (np_startBlink L r g b i now s)) (fst (np_startBlink L r g b i now s'))"
  "same_animation (fst (np_startBlink2 L r1 g1 b1 r2 g2 b2 i now s))
     (fst (np_startBlink2 L r1 g1 b1 r2 g2 b2 i now s'))"
  "same_animation (fst (np_startRainbow i now s)) (fst (np_startRainbow i now s'))"
  "same_animation (fst (np_turnOn L s)) (fst (np_turnOn L s'))"
  "same_animation (fst (np_turnOff s)) (fst (np_turnOff s'))"
  by (simp_all add: same_animation_def np_startBlink_def np_startBlink2_def np_startRainbow_def
      np_turnOn_def np_turnOff_def np_setColor_def np_stopAnimation_def Let_def)

lemma idle_ticks: "\<not> animationEnabled s \<Longrightarrow> np_ticks L ts s = []"
  by (induction ts) (simp_all add: np_update_def)

text \<open>
  C2, as the code has it. Starting an effect sets the mode, the enabled flag, the
  interval, the timestamp and every field the new mode's \<open>update()\<close> reads (Blink1: the
  first colour and a cleared phase flag; Blink2: both colours and a cleared phase flag;
  Rainbow: hue 0); \<open>turnOn\<close> and \<open>turnOff\<close> only disable the animation and set mode
  \<open>NONE\<close>. Fields of other modes keep their old values, and no later \<open>update()\<close>
  reads them: the hardware calls of all later ticks do not depend on the state before
  the operation.
\<close>

theorem start_sets_the_mode_fields:
  "animationMode (fst (np_startBlink L r g b i now s)) = BLINK1
   \<and> animationEnabled (fst (np_startBlink L r g b i now s))
   \<and> color1 (fst (np_startBlink L r g b i now s)) = createColor L r g b
   \<and> \<not> blinkState (fst (np_startBlink L r g b i now s))
   \<and> currentInterval (fst (np_startBlink L r g b i now s)) = i
   \<and> previousUpdateMillis (fst (np_startBlink L r g b i now s)) = now
   \<and> color2 (fst (np_startBlink L r g b i now s)) = color2 s
   \<and> rainbowHue (fst (np_startBlink L r g b i now s)) = rainbowHue s
   \<and> np_ticks L ts (fst (np_startBlink L r g b i now s))
       = np_ticks L ts (fst (np_startBlink L r g b i now s'))
   \<and> animationMode (fst (np_startBlink2 L r1 g1 b1 r2 g2 b2 i now s)) = BLINK2
   \<and> animationEnabled (fst (np_startBlink2 L r1 g1 b1 r2 g2 b2 i now s))
   \<and> color1 (fst (np_startBlink2 L r1 g1 b1 r2 g2 b2 i now s)) = createColor L r1 g1 b1
   \<and> color2 (fst (np_startBlink2 L r1 g1 b1 r2 g2 b2 i now s)) = createColor L r2 g2 b2
   \<and> \<not> blinkState (fst (np_startBlink2 L r1 g1 b1 r2 g2 b2 i now s))
   \<and> currentInterval (fst (np_startBlink2 L r1 g1 b1 r2 g2 b2 i now s)) = i
   \<and> previousUpdateMillis (fst (np_startBlink2 L r1 g1 b1 r2 g2 b2 i now s)) = now
   \<and> rainbowHue (fst (np_startBlink2 L r1 g1 b1 r2 g2 b2 i now s)) = rainbowHue s
   \<and> np_ticks L ts (fst (np_startBlink2 L r1 g1 b1 r2 g2 b2 i now s))
       = np_ticks L ts (fst (np_startBlink2 L r1 g1 b1 r2 g2 b2 i now s'))
   \<and> animationMode (fst (np_startRainbow i now s)) = RAINBOW
   \<and> animationEnabled (fst (np_startRainbow i now s))
   \<and> rainbowHue (fst (np_startRainbow i now s)) = 0
   \<and> currentInterval (fst (np_startRainbow i now s)) = i
   \<and> previousUpdateMillis (fst (np_startRainbow i now s)) = now
   \<and> color1 (fst (np_startRainbow i now s)) = color1 s
   \<and> color2 (fst (np_startRainbow i now s)) = color2 s
   \<and> blinkState (fst (np_startRainbow i now s)) = blinkState s
   \<and> np_ticks L ts (fst (np_startRainbow i now s)) = np_ticks L ts (fst (np_startRainbow i now s'))
   \<and> fst (np_turnOn L s) = s\<lparr>animationEnabled := False, animationMode := NONE\<rparr>
   \<and> fst (np_turnOff s) = s\<lparr>animationEnabled := False, animationMode := NONE\<rparr>
   \<and> np_ticks L ts (fst (np_turnOn L s)) = []
   \<and> np_ticks L ts (fst (np_turnOff s)) = []"
proof -
  have b1: "animationMode (fst (np_startBlink L r g b i now s)) = BLINK1
   \<and> animationEnabled (fst (np_startBlink L r g b i now s))
   \<and> color1 (fst (np_startBlink L r g b i now s)) = createColor L r g b
   \<and> \<not> blinkState (fst (np_startBlink L r g b i now s))
   \<and> currentInterval (fst (np_startBlink L r g b i now s)) = i
   \<and> previousUpdateMillis (fst (np_startBlink L r g b i now s)) = now
   \<and> color2 (fst (np_startBlink L r g b i now s)) = color2 s
   \<and> rainbowHue (fst (np_startBlink L r g b i now s)) = rainbowHue s"
    by (simp add: np_startBlink_def)
  have b2: "animationMode (fst (np_startBlink2 L r1 g1 b1 r2 g2 b2 i now s)) = BLINK2
   \<and> animationEnabled (fst (np_startBlink2 L r1 g1 b1 r2 g2 b2 i now s))
   \<and> color1 (fst (np_startBlink2 L r1 g1 b1 r2 g2 b2 i now s)) = createColor L r1 g1 b1
   \<and> color2 (fst (np_startBlink2 L r1 g1 b1 r2 g2 b2 i now s)) = createColor L r2 g2 b2
   \<and> \<not> blinkState (fst (np_startBlink2 L r1 g1 b1 r2 g2 b2 i now s))
   \<and> currentInterval (fst (np_startBlink2 L r1 g1 b1 r2 g2 b2 i now s)) = i
   \<and> previousUpdateMillis (fst (np_startBlink2 L r1 g1 b1 r2 g2 b2 i now s)) = now
   \<and> rainbowHue (fst (np_startBlink2 L r1 g1 b1 r2 g2 b2 i now s)) = rainbowHue s"
    by (simp add: np_startBlink2_def Let_def)
  have rb: "animationMode (fst (np_startRainbow i now s)) = RAINBOW
   \<and> animationEnabled (fst (np_startRainbow i now s))
   \<and> rainbowHue (fst (np_startRainbow i now s)) = 0
   \<and> currentInterval (fst (np_startRainbow i now s)) = i
   \<and> previousUpdateMillis (fst (np_startRainbow i now s)) = now
   \<and> color1 (fst (np_startRainbow i now s)) = color1 s
   \<and> color2 (fst (np_startRainbow i now s)) = color2 s
   \<and> blinkState (fst (np_startRainbow i now s)) = blinkState s"
    by (simp add: np_startRainbow_def)
  have onoff: "fst (np_turnOn L s) = s\<lparr>animationEnabled := False, animationMode := NONE\<rparr>
   \<and> fst (np_turnOff s) = s\<lparr>animationEnabled := False, animationMode := NONE\<rparr>"
    by (simp add: np_turnOn_def np_turnOff_def np_setColor_def np_stopAnimation_def)
  have idle: "np_ticks L ts (fst (np_turnOn L s)) = [] \<and> np_ticks L ts (fst (np_turnOff s)) = []"
    by (simp add: idle_ticks np_turnOn_def np_turnOff_def np_setColor_def np_stopAnimation_def)
  have t1: "np_ticks L ts (fst (np_startBlink L r g b i now s))
       = np_ticks L ts (fst (np_startBlink L r g b i now s'))"
    by (rule same_animation_ticks) (rule start_same)
  have t2: "np_ticks L ts (fst (np_startBlink2 L r1 g1 b1 r2 g2 b2 i now s))
       = np_ticks L ts (fst (np_startBlink2 L r1 g1 b1 r2 g2 b2 i now s'))"
    by (rule same_animation_ticks) (rule start_same)
  have t3: "np_ticks L ts (fst (np_startRainbow i now s))
       = np_ticks L ts (fst (np_startRainbow i now s'))"
    by (rule same_animation_ticks) (rule start_same)
  show ?thesis
    using b1 b2 rb onoff idle t1 t2 t3 by blast
qed

theorem start_sets_the_mode_fields_witness:
  "color2 (fst (np_startBlink rgb_driver 0 255 0 500 2000 after_blink2)) = color2 after_blink2
   \<and> np_ticks rgb_driver [2500, 2600, 3000] (fst (np_startBlink rgb_driver 0 255 0 500 2000 np0))
       = [SetPixelColor 0 65280, PixelsShow, SetPixelColor 0 0, PixelsShow]
   \<and> np_ticks rgb_driver [2500, 2600, 3000]
         (fst (np_startBlink rgb_driver 0 255 0 500 2000 after_blink2))
       = [SetPixelColor 0 65280, PixelsShow, SetPixelColor 0 0, PixelsShow]"
  using start_sets_the_mode_fields [where L = rgb_driver and r = 0 and g = 255 and b = 0
      and i = 500 and now = 2000 and s = after_blink2 and s' = np0 and ts = "[2500, 2600, 3000]"
      and ?r1.0 = 0 and ?g1.0 = 0 and ?b1.0 = 0 and ?r2.0 = 0 and ?g2.0 = 0 and ?b2.0 = 0]
  by (simp add: np_update_def np_startBlink_def np0_def NeoPixelLEDController_new_def
      createColor_def rgb_driver_def Let_def)

text \<open>
  The claim as stated fails: after Blink2 then Blink1 the second colour is still the
  blue of Blink2, and Rainbow started after a Blink1 tick keeps the set phase flag and
  the green first colour, so the state differs from Rainbow started on a fresh
  controller.
\<close>

theorem state_replacement_counterexample:
  "color2 (fst (np_startBlink rgb_driver 0 255 0 500 2000 after_blink2)) = 255
   \<and> fst (np_startRainbow 50 3000 after_blink1_tick)
       = \<lparr>previousUpdateMillis = 3000, currentInterval = 50, animationEnabled = True,
          powerPin = 11, animationMode = RAINBOW, color1 = 65280, color2 = 0,
          blinkState = True, rainbowHue = 0\<rparr>
   \<and> fst (np_startRainbow 50 3000 after_blink1_tick) \<noteq> fst (np_startRainbow 50 3000 np0)"
  by (simp add: after_blink2_def after_blink1_tick_def np_startBlink_def np_startBlink2_def
      np_startRainbow_def np_update_def np0_def NeoPixelLEDController_new_def createColor_def
      rgb_driver_def Let_def)

section \<open>Validation of the RAINBOW and COLOR lines\<close>

lemma snprintf128_short: "length s \<le> 127 \<Longrightarrow> snprintf128 s = s"
  by (simp add: snprintf128_def)

lemma parseRainbow_char:
  "parseRainbowCommand (Some (''RAINBOW,'' @ x))
     = (case scan_int x of None \<Rightarrow> None
        | Some (v, rest) \<Rightarrow> if v > 0 then Some v else None)"
  by (simp add: parseRainbowCommand_def lits_def split: option.splits)

lemma processCommand_rainbow_rejected:
  "parseRainbowCommand (Some (''RAINBOW,'' @ x)) = None \<Longrightarrow> length x \<le> 60 \<Longrightarrow>
     processCommand (Some (''RAINBOW,'' @ x)) (Some r)
       = Some \<lparr>result = COMMAND_REJECTED,
               response = ''REJECT,RAINBOW,'' @ x @ '',invalid interval''\<rparr>"
  by (simp add: processCommand_def strncmp_eq_def snprintf128_def)

lemma processCommand_rainbow_accepted:
  "parseRainbowCommand (Some (''RAINBOW,'' @ x)) = Some n \<Longrightarrow> length (dec n) \<le> 11 \<Longrightarrow>
     processCommand (Some (''RAINBOW,'' @ x)) (Some r)
       = Some \<lparr>result = COMMAND_ACCEPTED,
               response = ''ACCEPTED,RAINBOW,interval='' @ dec n\<rparr>"
  by (simp add: processCommand_def strncmp_eq_def snprintf128_def)

lemma stops_Nil: "stops []"
  by (simp add: stops_def)

lemma parseRainbow_scanned:
  "scan_int u = Some (v, rest) \<Longrightarrow>
     parseRainbowCommand (Some (''RAINBOW,'' @ u)) = (if 0 < v then Some v else None)"
  unfolding parseRainbow_char by simp

text \<open>
  C4, as the code has it. For every positive \<open>n\<close> within the range of \<open>int\<close>, the line
  \<open>RAINBOW,n\<close> (with \<open>n\<close> in decimal) is accepted; for every \<open>n \<le> 0\<close> within that
  range, and for every interval text with no integer at its head (after optional white
  space and one optional sign there is no digit), the line is rejected with reason
  \<open>invalid interval\<close>. An interval text that has an integer at its head is judged by
  that integer alone, whatever follows it: accepted with it as the interval when it is
  positive, rejected with \<open>invalid interval\<close> otherwise. (Interval texts are those of
  lines of at most 60 characters.)
\<close>

theorem rainbow_interval_validation:
  "(0 < n \<and> int_range n \<longrightarrow>
      parseRainbowCommand (Some (''RAINBOW,'' @ dec n)) = Some n
      \<and> processCommand (Some (''RAINBOW,'' @ dec n)) (Some r)
          = Some \<lparr>result = COMMAND_ACCEPTED,
                  response = ''ACCEPTED,RAINBOW,interval='' @ dec n\<rparr>)
   \<and> (n \<le> 0 \<and> int_range n \<longrightarrow>
      parseRainbowCommand (Some (''RAINBOW,'' @ dec n)) = None
      \<and> processCommand (Some (''RAINBOW,'' @ dec n)) (Some r)
          = Some \<lparr>result = COMMAND_REJECTED,
                  response = ''REJECT,RAINBOW,'' @ dec n @ '',invalid interval''\<rparr>)
   \<and> (non_numeric t \<and> length t \<le> 60 \<longrightarrow>
      parseRainbowCommand (Some (''RAINBOW,'' @ t)) = None
      \<and> processCommand (Some (''RAINBOW,'' @ t)) (Some r)
          = Some \<lparr>result = COMMAND_REJECTED,
                  response = ''REJECT,RAINBOW,'' @ t @ '',invalid interval''\<rparr>)
   \<and> (scan_int u = Some (v, rest) \<and> int_range v \<and> length u \<le> 60 \<longrightarrow>
      parseRainbowCommand (Some (''RAINBOW,'' @ u)) = (if 0 < v then Some v else None)
      \<and> processCommand (Some (''RAINBOW,'' @ u)) (Some r)
          = Some (if 0 < v
                  then \<lparr>result = COMMAND_ACCEPTED,
                        response = ''ACCEPTED,RAINBOW,interval='' @ dec v\<rparr>
                  else \<lparr>result = COMMAND_REJECTED,
                        response = ''REJECT,RAINBOW,'' @ u @ '',invalid interval''\<rparr>))"
proof -
  have scan: "scan_int (dec n) = Some (n, [])"
    using scan_int_dec [OF stops_Nil, of n] by simp
  have pos: "parseRainbowCommand (Some (''RAINBOW,'' @ dec n)) = Some n" if "0 < n"
    unfolding parseRainbow_char using that by (simp add: scan)
  have neg: "parseRainbowCommand (Some (''RAINBOW,'' @ dec n)) = None" if "n \<le> 0"
    unfolding parseRainbow_char using that by (simp add: scan)
  have non: "parseRainbowCommand (Some (''RAINBOW,'' @ t)) = None" if "non_numeric t"
    unfolding parseRainbow_char using that by (simp add: non_numeric_def)
  have len: "length (dec n) \<le> 11" if "int_range n" for n
    using length_dec [OF that] .
  have acc: "processCommand (Some (''RAINBOW,'' @ dec n)) (Some r)
          = Some \<lparr>result = COMMAND_ACCEPTED,
                  response = ''ACCEPTED,RAINBOW,interval='' @ dec n\<rparr>"
    if "0 < n" "int_range n"
    by (rule processCommand_rainbow_accepted [OF pos [OF that(1)] len [OF that(2)]])
  have rejn: "processCommand (Some (''RAINBOW,'' @ dec n)) (Some r)
          = Some \<lparr>result = COMMAND_REJECTED,
                  response = ''REJECT,RAINBOW,'' @ dec n @ '',invalid interval''\<rparr>"
    if "n \<le> 0" "int_range n"
    by (rule processCommand_rainbow_rejected [OF neg [OF that(1)]]) (use len [OF that(2)] in simp)
  have rejt: "processCommand (Some (''RAINBOW,'' @ t)) (Some r)
          = Some \<lparr>result = COMMAND_REJECTED,
                  response = ''REJECT,RAINBOW,'' @ t @ '',invalid interval''\<rparr>"
    if "non_numeric t" "length t \<le> 60"
    by (rule processCommand_rainbow_rejected [OF non [OF that(1)] that(2)])
  have lead: "parseRainbowCommand (Some (''RAINBOW,'' @ u)) = (if 0 < v then Some v else None)
      \<and> processCommand (Some (''RAINBOW,'' @ u)) (Some r)
          = Some (if 0 < v
                  then \<lparr>result = COMMAND_ACCEPTED,
                        response = ''ACCEPTED,RAINBOW,interval='' @ dec v\<rparr>
                  else \<lparr>result = COMMAND_REJECTED,
                        response = ''REJECT,RAINBOW,'' @ u @ '',invalid interval''\<rparr>)"
    if s: "scan_int u = Some (v, rest)" and r: "int_range v" and l: "length u \<le> 60"
  proof (cases "0 < v")
    case True
    with parseRainbow_scanned [OF s]
    have p: "parseRainbowCommand (Some (''RAINBOW,'' @ u)) = Some v" by simp
    from processCommand_rainbow_accepted [OF p len [OF r], of r] p True show ?thesis
      by simp
  next
    case False
    with parseRainbow_scanned [OF s]
    have p: "parseRainbowCommand (Some (''RAINBOW,'' @ u)) = None" by simp
    from processCommand_rainbow_rejected [OF p l, of r] p False show ?thesis
      by simp
  qed
  show ?thesis
    using pos neg non acc rejn rejt lead by blast
qed

theorem rainbow_interval_validation_witness:
  "processCommand (Some ''RAINBOW,50'') (Some response_local)
     = Some \<lparr>result = COMMAND_ACCEPTED, response = ''ACCEPTED,RAINBOW,interval=50''\<rparr>
   \<and> processCommand (Some ''RAINBOW,abc'') (Some response_local)
     = Some \<lparr>result = COMMAND_REJECTED, response = ''REJECT,RAINBOW,abc,invalid interval''\<rparr>
   \<and> processCommand (Some ''RAINBOW,5x'') (Some response_local)
     = Some \<lparr>result = COMMAND_ACCEPTED, response = ''ACCEPTED,RAINBOW,interval=5''\<rparr>"
proof -
  have d: "dec 50 = ''50''" "dec 5 = ''5''"
    by code_simp+
  have n: "non_numeric ''abc''"
    by code_simp
  have s: "scan_int ''5x'' = Some (5, ''x'')"
    by code_simp
  have r: "int_range 50" "int_range 5"
    by (simp_all add: int_range_def INT_MIN_def INT_MAX_def)
  from rainbow_interval_validation [where n = 50 and t = "''abc''" and r = response_local
      and u = "''5x''" and v = 5 and rest = "''x''"]
  show ?thesis
    using d n s r by simp
qed

text \<open>
  The claim as stated fails on an interval text that is not a number but starts with
  one: \<open>RAINBOW,5x\<close> is accepted, with interval 5.
\<close>

theorem rainbow_trailing_text_counterexample:
  "''5x'' \<noteq> dec 5
   \<and> parseRainbowCommand (Some ''RAINBOW,5x'') = Some 5
   \<and> processCommand (Some ''RAINBOW,5x'') (Some response_local)
       = Some \<lparr>result = COMMAND_ACCEPTED, response = ''ACCEPTED,RAINBOW,interval=5''\<rparr>"
  by code_simp




















end
